theory Spec2Isabelle
  imports Complex_Main "HOL-Library.Word" "HOL-Library.AList"
begin

section \<open>RTC::SimulcastConsumer (worker/src/RTC/SimulcastConsumer.cpp)\<close>

text \<open>
  A shallow embedding of the simulcast consumer. Member functions become functions on a
  record of the instance state. A function that can abort or throw returns
  \<open>error + 'a\<close>. Calls on the listener, the notifier and the request are appended to
  the field \<open>events\<close> in the order the code makes them.

  Integer types: \<open>int16_t\<close> layer indices are \<open>int\<close> with the narrowing casts of
  the code written out (\<open>int16_of_nat\<close>, \<open>int16_of_int\<close>); \<open>uint8_t\<close>,
  \<open>uint16_t\<close>, \<open>uint32_t\<close> and \<open>uint64_t\<close> values are words.
\<close>

subsection \<open>Machine integers\<close>

type_synonym u8 = "8 word"
type_synonym u16 = "16 word"
type_synonym u32 = "32 word"
type_synonym u64 = "64 word"

text \<open>\<open>static_cast<int16_t>(x)\<close> for an unsigned \<open>x\<close> and for an \<open>int\<close>.\<close>

definition int16_of_nat :: "nat \<Rightarrow> int" where
  "int16_of_nat n = sint (word_of_nat n :: 16 word)"

definition int16_of_int :: "int \<Rightarrow> int" where
  "int16_of_int i = sint (word_of_int i :: 16 word)"

text \<open>Integer division of C++, which truncates towards zero.\<close>

definition cdiv :: "int \<Rightarrow> int \<Rightarrow> int" where
  "cdiv a b = sgn a * sgn b * (\<bar>a\<bar> div \<bar>b\<bar>)"

subsection \<open>Errors\<close>

datatype error =
    AssertionFailed    \<comment> \<open>\<open>MS_ASSERT\<close> aborts\<close>
  | TypeError          \<comment> \<open>\<open>MS_THROW_TYPE_ERROR\<close>\<close>
  | OutOfRange         \<comment> \<open>\<open>std::vector::at\<close>, \<open>std::unordered_map::at\<close>, or an index past the end\<close>
  | NullDereference    \<comment> \<open>a member call through a null pointer\<close>

subsection \<open>Collaborators\<close>

text \<open>
  A producer-side \<open>RTC::RtpStream\<close> as the consumer observes it through its getters at the
  time of a call. \<open>ptr\<close> is the identity of the object, for the pointer comparisons of
  the code. \<open>getBitrate st t\<close> is \<open>GetBitrate(now, 0, t)\<close> and \<open>getLayerBitrate st t\<close>
  is \<open>GetLayerBitrate(now, 0, t)\<close>. \<open>getTemporalLayers\<close> is a small count: it fits the
  \<open>int16_t\<close> loop counters it is compared with.
\<close>

record rtp_stream =
  ptr :: nat
  getScore :: u8
  getActiveTime :: u64
  getTemporalLayers :: int
  getBitrate :: "int \<Rightarrow> u32"
  getLayerBitrate :: "int \<Rightarrow> u32"
  getSenderReportNtpMs :: u64
  getSenderReportTs :: u32

text \<open>
  The consumer's own \<open>RTC::RtpStreamSend\<close>, again through its getters. The loss percentage
  is a \<open>real\<close>: the code only compares it with 2 and 10 and uses it in floating-point
  arithmetic. \<open>internals\<close> stands for the part of the stream the consumer never reads.
\<close>

record 'ss rtp_stream_send =
  maxPacketTs :: u32
  sendScore :: u8
  lossPercentage :: real
  fractionLost :: u8
  clockRate :: u32
  spatialLayers :: int
  sendTemporalLayers :: int
  internals :: 'ss

text \<open>The codec-specific \<open>RTC::Codecs::EncodingContext\<close>.\<close>

record encoding_context =
  ecTargetTemporalLayer :: int
  ecCurrentTemporalLayer :: int
  ecSyncRequired :: bool

definition SetTargetTemporalLayer :: "int \<Rightarrow> encoding_context \<Rightarrow> encoding_context" where
  "SetTargetTemporalLayer t ec = ec\<lparr>ecTargetTemporalLayer := t\<rparr>"

definition SetCurrentTemporalLayer :: "int \<Rightarrow> encoding_context \<Rightarrow> encoding_context" where
  "SetCurrentTemporalLayer t ec = ec\<lparr>ecCurrentTemporalLayer := t\<rparr>"

definition GetCurrentTemporalLayer :: "encoding_context \<Rightarrow> int" where
  "GetCurrentTemporalLayer ec = ecCurrentTemporalLayer ec"

definition SyncRequired :: "encoding_context \<Rightarrow> encoding_context" where
  "SyncRequired ec = ec\<lparr>ecSyncRequired := True\<rparr>"

text \<open>
  An \<open>RTC::RtpPacket\<close>. \<open>savedPayload\<close> is what \<open>RestorePayload\<close> puts back: the
  payload as it was before \<open>ProcessPayload\<close> touched it.
\<close>

record rtp_packet =
  ssrc :: u32
  sequenceNumber :: u16
  timestamp :: u32
  payloadType :: u8
  isKeyFrame :: bool
  packetTemporalLayer :: u8
  payload :: "u8 list"
  savedPayload :: "u8 list option"

datatype media_kind = AUDIO | VIDEO

datatype event =
    NotifyScore u8 u8                      \<comment> \<open>\<open>Notifier::Emit(id, "score", {score, producerScore})\<close>\<close>
  | NotifyLayersChange "(int \<times> int) option" \<comment> \<open>\<open>Notifier::Emit(id, "layerschange", ...)\<close>, \<open>None\<close> for null\<close>
  | OnConsumerSendRtpPacket rtp_packet
  | OnConsumerRetransmitRtpPacket rtp_packet
  | OnConsumerKeyFrameRequested u32
  | OnConsumerNeedBitrateChange
  | RequestAccept

subsection \<open>Instance state\<close>

text \<open>
  \<open>consumerActive\<close> is the value of \<open>RTC::Consumer::IsActive()\<close>, which the base class
  computes from its own state. \<open>consumableSsrcs\<close> lists \<open>consumableRtpEncodings[i].ssrc\<close>
  and \<open>outputSsrc\<close> is \<open>rtpParameters.encodings[0].ssrc\<close>. \<open>rtpSeqManager\<close> is the
  state of the \<open>RTC::SeqManager<uint16_t>\<close>. The \<open>std::map\<close> \<open>tsExtraOffsets\<close> is an
  association list with unique keys: \<open>map_of\<close> is \<open>find\<close>, \<open>AList.update\<close> is
  \<open>operator[]\<close> followed by an assignment, \<open>[]\<close> is the map after \<open>clear()\<close>.
\<close>

record ('sm, 'ss) consumer =
  kind :: media_kind
  consumerActive :: bool
  externallyManagedBitrate :: bool
  supportedCodecPayloadTypes :: "u8 set"
  consumableSsrcs :: "u32 list"
  outputSsrc :: u32
  mapMappedSsrcSpatialLayer :: "u32 \<rightharpoonup> int"
  producerRtpStreams :: "rtp_stream option list"
  rtpStream :: "'ss rtp_stream_send"
  encodingContext :: encoding_context
  rtpSeqManager :: 'sm
  preferredSpatialLayer :: int
  preferredTemporalLayer :: int
  provisionalTargetSpatialLayer :: int
  provisionalTargetTemporalLayer :: int
  targetSpatialLayer :: int
  targetTemporalLayer :: int
  currentSpatialLayer :: int
  tsReferenceSpatialLayer :: int
  syncRequired :: bool
  tsOffset :: u32
  tsExtraOffsets :: "(u32 \<times> u32) list"
  tsExtraOffetPacketCount :: u32
  lastRtcpSentTime :: u64
  events :: "event list"

definition emit :: "event \<Rightarrow> ('sm, 'ss) consumer \<Rightarrow> ('sm, 'ss) consumer" where
  "emit e c = c\<lparr>events := events c @ [e]\<rparr>"

text \<open>
  \<open>producerRtpStreams.at(i)\<close> for an \<open>int16_t\<close> index: the index is converted to
  \<open>size_t\<close>, so a negative one is out of range. The inner option is the pointer.
\<close>

definition streamAt :: "('sm, 'ss) consumer \<Rightarrow> int \<Rightarrow> error + rtp_stream option" where
  "streamAt c i =
     (if 0 \<le> i \<and> nat i < length (producerRtpStreams c)
      then Inr (producerRtpStreams c ! nat i) else Inl OutOfRange)"

definition GetProducerCurrentRtpStream :: "('sm, 'ss) consumer \<Rightarrow> error + rtp_stream option" where
  "GetProducerCurrentRtpStream c =
     (if currentSpatialLayer c = -1 then Inr None else streamAt c (currentSpatialLayer c))"

definition GetProducerTargetRtpStream :: "('sm, 'ss) consumer \<Rightarrow> error + rtp_stream option" where
  "GetProducerTargetRtpStream c =
     (if targetSpatialLayer c = -1 then Inr None else streamAt c (targetSpatialLayer c))"

definition GetProducerProvisionalTargetRtpStream ::
  "('sm, 'ss) consumer \<Rightarrow> error + rtp_stream option" where
  "GetProducerProvisionalTargetRtpStream c =
     (if provisionalTargetSpatialLayer c = -1 then Inr None
      else streamAt c (provisionalTargetSpatialLayer c))"

definition GetProducerTsReferenceRtpStream :: "('sm, 'ss) consumer \<Rightarrow> error + rtp_stream option" where
  "GetProducerTsReferenceRtpStream c =
     (if tsReferenceSpatialLayer c = -1 then Inr None
      else streamAt c (tsReferenceSpatialLayer c))"

subsection \<open>CanSwitchToSpatialLayer\<close>

text \<open>
  The assertion reads the slot of the given layer first. The disjunction is evaluated left
  to right and stops at the first true operand, so the reference stream is dereferenced
  only when the first two operands are false.
\<close>

definition CanSwitchToSpatialLayer :: "('sm, 'ss) consumer \<Rightarrow> int \<Rightarrow> error + bool" where
  "CanSwitchToSpatialLayer c spatialLayer =
     (case streamAt c spatialLayer of
        Inl e \<Rightarrow> Inl e
      | Inr None \<Rightarrow> Inl AssertionFailed
      | Inr (Some st) \<Rightarrow>
          if tsReferenceSpatialLayer c = -1 then Inr True
          else if spatialLayer = tsReferenceSpatialLayer c then Inr True
          else (case GetProducerTsReferenceRtpStream c of
                  Inl e \<Rightarrow> Inl e
                | Inr None \<Rightarrow> Inl NullDereference
                | Inr (Some ref) \<Rightarrow>
                    Inr (getSenderReportNtpMs ref \<noteq> 0 \<and> getSenderReportNtpMs st \<noteq> 0)))"

subsection \<open>GetBitratePriority\<close>

fun priorityLoop :: "int \<Rightarrow> nat \<Rightarrow> rtp_stream option list \<Rightarrow> int \<Rightarrow> int" where
  "priorityLoop pref sIdx [] prioritySpatialLayer = prioritySpatialLayer"
| "priorityLoop pref sIdx (producerRtpStream # rest) prioritySpatialLayer =
     (let spatialLayer = int16_of_nat sIdx in
      if spatialLayer > pref \<and> prioritySpatialLayer \<noteq> -1 then prioritySpatialLayer
      else (case producerRtpStream of
              None \<Rightarrow> priorityLoop pref (Suc sIdx) rest prioritySpatialLayer
            | Some st \<Rightarrow>
                if getScore st = 0 then priorityLoop pref (Suc sIdx) rest prioritySpatialLayer
                else priorityLoop pref (Suc sIdx) rest spatialLayer))"

definition GetBitratePriority :: "('sm, 'ss) consumer \<Rightarrow> error + u16" where
  "GetBitratePriority c =
     (if \<not> externallyManagedBitrate c then Inl AssertionFailed
      else if \<not> consumerActive c then Inr 0
      else
        (let prioritySpatialLayer =
               priorityLoop (preferredSpatialLayer c) 0 (producerRtpStreams c) (-1)
         in if prioritySpatialLayer = -1 then Inr 1
            else Inr (word_of_int (prioritySpatialLayer + 1))))"

subsection \<open>Collaborators that are not part of this file\<close>

text \<open>
  The functions below are called by the consumer and defined elsewhere; they are taken as
  parameters, so every theorem holds for each behaviour they may have.
  \<^item> \<open>IsActive\<close>: the unqualified \<open>IsActive()\<close>, declared in the header of the class.
  \<^item> \<open>ProcessPayload\<close>: what the encoding context does with a packet; it answers
    whether to forward, and may change the context and the payload.
  \<^item> \<open>ReceivePacket\<close>, \<open>ResetScore\<close>, \<open>Pause\<close>, \<open>GetRtcpSenderReport\<close> and the three
    \<open>rtpStreamReceive...\<close>: members of \<open>RTC::RtpStreamSend\<close>.
  \<^item> \<open>SeqSync\<close>, \<open>SeqDrop\<close>, \<open>SeqInput\<close>: members of \<open>RTC::SeqManager\<close>.
  \<^item> \<open>boostBitrate b\<close> is the \<open>uint32_t\<close> that \<open>1.08 * bitrate\<close> converts to and
    \<open>penaltyBitrate p b\<close> the one that \<open>(1 - 0.5 * (lossPercentage / 100)) * bitrate\<close>
    converts to: both are floating-point expressions.
  \<^item> \<open>rtcpIntervalElapsed now last\<close> is the floating-point comparison of \<open>GetRtcp\<close>.
  \<^item> \<open>ConsumerHandleRequest\<close>: \<open>RTC::Consumer::HandleRequest\<close> of the base class, which
    sees the base state only: here the active flag and the calls it makes.
\<close>

typedecl nack_packet
typedecl receiver_report
typedecl key_frame_message_type

datatype method_id =
  CONSUMER_REQUEST_KEY_FRAME | CONSUMER_SET_PREFERRED_LAYERS | OTHER_METHOD nat

text \<open>A JSON value of the request data, as far as the code looks at it.\<close>

datatype json_value = JsonUnsigned nat | JsonOther

record request =
  methodId :: method_id
  jsonSpatialLayer :: "json_value option"    \<comment> \<open>\<open>request->data.find("spatialLayer")\<close>\<close>
  jsonTemporalLayer :: "json_value option"   \<comment> \<open>\<open>request->data.find("temporalLayer")\<close>\<close>

record ('sm, 'ss) deps =
  IsActive :: "('sm, 'ss) consumer \<Rightarrow> bool"
  ProcessPayload :: "encoding_context \<Rightarrow> rtp_packet \<Rightarrow> bool \<times> encoding_context \<times> u8 list"
  ReceivePacket :: "'ss rtp_stream_send \<Rightarrow> rtp_packet \<Rightarrow> bool \<times> 'ss rtp_stream_send"
  ResetScore :: "u8 \<Rightarrow> bool \<Rightarrow> 'ss rtp_stream_send \<Rightarrow> 'ss rtp_stream_send"
  Pause :: "'ss rtp_stream_send \<Rightarrow> 'ss rtp_stream_send"
  rtpStreamReceiveNack :: "nack_packet \<Rightarrow> 'ss rtp_stream_send \<Rightarrow> 'ss rtp_stream_send"
  rtpStreamReceiveKeyFrameRequest :: "key_frame_message_type \<Rightarrow> 'ss rtp_stream_send \<Rightarrow> 'ss rtp_stream_send"
  rtpStreamReceiveRtcpReceiverReport :: "receiver_report \<Rightarrow> 'ss rtp_stream_send \<Rightarrow> 'ss rtp_stream_send"
  GetRtcpSenderReport :: "u64 \<Rightarrow> 'ss rtp_stream_send \<Rightarrow> bool \<times> 'ss rtp_stream_send"
  SeqSync :: "u16 \<Rightarrow> 'sm \<Rightarrow> 'sm"
  SeqDrop :: "u16 \<Rightarrow> 'sm \<Rightarrow> 'sm"
  SeqInput :: "u16 \<Rightarrow> 'sm \<Rightarrow> u16 \<times> 'sm"
  boostBitrate :: "u32 \<Rightarrow> u32"
  penaltyBitrate :: "real \<Rightarrow> u32 \<Rightarrow> u32"
  rtcpIntervalElapsed :: "u64 \<Rightarrow> u64 \<Rightarrow> bool"
  ConsumerHandleRequest :: "request \<Rightarrow> bool \<Rightarrow> error + bool \<times> event list"

text \<open>
  Modelled from the spec: \<open>RtpPacket::ProcessPayload\<close> and \<open>RtpPacket::RestorePayload\<close>
  are not in this file. The encoding context may rewrite the payload and says whether the
  packet is to be forwarded; the packet keeps the payload it was given, and
  \<open>RestorePayload\<close> puts it back.
\<close>

definition PacketProcessPayload ::
  "('sm, 'ss) deps \<Rightarrow> encoding_context \<Rightarrow> rtp_packet \<Rightarrow> bool \<times> encoding_context \<times> rtp_packet" where
  "PacketProcessPayload d ec packet =
     (case ProcessPayload d ec packet of
        (ok, ec', pl) \<Rightarrow> (ok, ec', packet\<lparr>payload := pl, savedPayload := Some (payload packet)\<rparr>))"

definition RestorePayload :: "rtp_packet \<Rightarrow> rtp_packet" where
  "RestorePayload packet =
     (case savedPayload packet of
        None \<Rightarrow> packet
      | Some orig \<Rightarrow> packet\<lparr>payload := orig, savedPayload := None\<rparr>)"

subsection \<open>Notifications and key frame requests\<close>

text \<open>\<open>consumableRtpEncodings[i].ssrc\<close> for an \<open>int16_t\<close> index.\<close>

definition mappedSsrcAt :: "('sm, 'ss) consumer \<Rightarrow> int \<Rightarrow> error + u32" where
  "mappedSsrcAt c i =
     (if 0 \<le> i \<and> nat i < length (consumableSsrcs c)
      then Inr (consumableSsrcs c ! nat i) else Inl OutOfRange)"

definition EmitScore :: "('sm, 'ss) consumer \<Rightarrow> error + ('sm, 'ss) consumer" where
  "EmitScore c =
     (case GetProducerCurrentRtpStream c of
        Inl e \<Rightarrow> Inl e
      | Inr producerCurrentRtpStream \<Rightarrow>
          Inr (emit (NotifyScore (sendScore (rtpStream c))
                       (case producerCurrentRtpStream of None \<Rightarrow> 0 | Some st \<Rightarrow> getScore st)) c))"

definition EmitLayersChange :: "('sm, 'ss) consumer \<Rightarrow> ('sm, 'ss) consumer" where
  "EmitLayersChange c =
     emit (NotifyLayersChange
             (if currentSpatialLayer c \<ge> 0
              then Some (currentSpatialLayer c, GetCurrentTemporalLayer (encodingContext c))
              else None)) c"

definition RequestKeyFrameForTargetSpatialLayer ::
  "('sm, 'ss) consumer \<Rightarrow> error + ('sm, 'ss) consumer" where
  "RequestKeyFrameForTargetSpatialLayer c =
     (if kind c \<noteq> VIDEO then Inr c
      else (case GetProducerTargetRtpStream c of
              Inl e \<Rightarrow> Inl e
            | Inr None \<Rightarrow> Inr c
            | Inr (Some st) \<Rightarrow>
                (case mappedSsrcAt c (targetSpatialLayer c) of
                   Inl e \<Rightarrow> Inl e
                 | Inr mappedSsrc \<Rightarrow> Inr (emit (OnConsumerKeyFrameRequested mappedSsrc) c))))"

definition RequestKeyFrameForCurrentSpatialLayer ::
  "('sm, 'ss) consumer \<Rightarrow> error + ('sm, 'ss) consumer" where
  "RequestKeyFrameForCurrentSpatialLayer c =
     (if kind c \<noteq> VIDEO then Inr c
      else (case GetProducerCurrentRtpStream c of
              Inl e \<Rightarrow> Inl e
            | Inr None \<Rightarrow> Inr c
            | Inr (Some st) \<Rightarrow>
                (case mappedSsrcAt c (currentSpatialLayer c) of
                   Inl e \<Rightarrow> Inl e
                 | Inr mappedSsrc \<Rightarrow> Inr (emit (OnConsumerKeyFrameRequested mappedSsrc) c))))"

definition RequestKeyFrames :: "('sm, 'ss) consumer \<Rightarrow> error + ('sm, 'ss) consumer" where
  "RequestKeyFrames c =
     (if kind c \<noteq> VIDEO then Inr c
      else (case GetProducerTargetRtpStream c of
              Inl e \<Rightarrow> Inl e
            | Inr producerTargetRtpStream \<Rightarrow>
          (case GetProducerCurrentRtpStream c of
              Inl e \<Rightarrow> Inl e
            | Inr producerCurrentRtpStream \<Rightarrow>
          (case (if producerTargetRtpStream \<noteq> None
                 then (case mappedSsrcAt c (targetSpatialLayer c) of
                         Inl e \<Rightarrow> Inl e
                       | Inr mappedSsrc \<Rightarrow> Inr (emit (OnConsumerKeyFrameRequested mappedSsrc) c))
                 else Inr c) of
              Inl e \<Rightarrow> Inl e
            | Inr c1 \<Rightarrow>
                if producerCurrentRtpStream \<noteq> None \<and>
                   map_option ptr producerCurrentRtpStream \<noteq> map_option ptr producerTargetRtpStream
                then (case mappedSsrcAt c1 (currentSpatialLayer c1) of
                        Inl e \<Rightarrow> Inl e
                      | Inr mappedSsrc \<Rightarrow> Inr (emit (OnConsumerKeyFrameRequested mappedSsrc) c1))
                else Inr c1))))"

subsection \<open>Target layers\<close>

definition StreamGoodScore :: u8 where
  "StreamGoodScore = 5"

definition StreamMinActiveTime :: u64 where
  "StreamMinActiveTime = 2000"

fun recalculateLoop ::
  "('sm, 'ss) consumer \<Rightarrow> nat \<Rightarrow> rtp_stream option list \<Rightarrow> int \<Rightarrow> u8 \<Rightarrow> error + int" where
  "recalculateLoop c sIdx [] newTargetSpatialLayer maxProducerScore = Inr newTargetSpatialLayer"
| "recalculateLoop c sIdx (producerRtpStream # rest) newTargetSpatialLayer maxProducerScore =
     (let spatialLayer = int16_of_nat sIdx in
      case producerRtpStream of
        None \<Rightarrow> recalculateLoop c (Suc sIdx) rest newTargetSpatialLayer maxProducerScore
      | Some st \<Rightarrow>
          if getScore st = 0
          then recalculateLoop c (Suc sIdx) rest newTargetSpatialLayer maxProducerScore
          else if externallyManagedBitrate c \<and> newTargetSpatialLayer \<noteq> -1 \<and>
                  getActiveTime st < StreamMinActiveTime
          then recalculateLoop c (Suc sIdx) rest newTargetSpatialLayer maxProducerScore
          else (case CanSwitchToSpatialLayer c spatialLayer of
                  Inl e \<Rightarrow> Inl e
                | Inr canSwitch \<Rightarrow>
                    if \<not> canSwitch
                    then recalculateLoop c (Suc sIdx) rest newTargetSpatialLayer maxProducerScore
                    else if getScore st < maxProducerScore \<and> getScore st < StreamGoodScore
                    then recalculateLoop c (Suc sIdx) rest newTargetSpatialLayer maxProducerScore
                    else if spatialLayer \<ge> preferredSpatialLayer c \<and> getScore st \<ge> StreamGoodScore
                    then Inr spatialLayer
                    else recalculateLoop c (Suc sIdx) rest spatialLayer (getScore st)))"

text \<open>The result is the returned flag with the two output parameters.\<close>

definition RecalculateTargetLayers :: "('sm, 'ss) consumer \<Rightarrow> error + bool \<times> int \<times> int" where
  "RecalculateTargetLayers c =
     (case recalculateLoop c 0 (producerRtpStreams c) (-1) 0 of
        Inl e \<Rightarrow> Inl e
      | Inr newTargetSpatialLayer \<Rightarrow>
          (let newTargetTemporalLayer =
                 (if newTargetSpatialLayer \<noteq> -1
                  then (if newTargetSpatialLayer = preferredSpatialLayer c
                        then preferredTemporalLayer c
                        else if newTargetSpatialLayer < preferredSpatialLayer c
                        then int16_of_int (sendTemporalLayers (rtpStream c) - 1)
                        else 0)
                  else -1)
           in Inr (newTargetSpatialLayer \<noteq> targetSpatialLayer c \<or>
                   newTargetTemporalLayer \<noteq> targetTemporalLayer c,
                   newTargetSpatialLayer, newTargetTemporalLayer)))"

definition UpdateTargetLayers ::
  "('sm, 'ss) consumer \<Rightarrow> int \<Rightarrow> int \<Rightarrow> error + ('sm, 'ss) consumer" where
  "UpdateTargetLayers c newTargetSpatialLayer newTargetTemporalLayer =
     (let c1 = (if newTargetSpatialLayer \<noteq> -1 \<and> tsReferenceSpatialLayer c = -1
                then c\<lparr>tsReferenceSpatialLayer := newTargetSpatialLayer\<rparr> else c)
      in if newTargetSpatialLayer = -1
         then Inr (EmitLayersChange
                (c1\<lparr>targetSpatialLayer := -1, targetTemporalLayer := -1,
                    currentSpatialLayer := -1,
                    encodingContext :=
                      SetCurrentTemporalLayer (-1) (SetTargetTemporalLayer (-1) (encodingContext c1))\<rparr>))
         else
           (let c2 = c1\<lparr>targetSpatialLayer := newTargetSpatialLayer,
                        targetTemporalLayer := newTargetTemporalLayer\<rparr>;
                c3 = (if targetSpatialLayer c2 = currentSpatialLayer c2
                      then c2\<lparr>encodingContext :=
                             SetTargetTemporalLayer (targetTemporalLayer c2) (encodingContext c2)\<rparr>
                      else c2)
            in if targetSpatialLayer c3 \<noteq> currentSpatialLayer c3
               then RequestKeyFrameForTargetSpatialLayer c3
               else Inr c3))"

definition MayChangeLayers :: "('sm, 'ss) consumer \<Rightarrow> bool \<Rightarrow> error + ('sm, 'ss) consumer" where
  "MayChangeLayers c force =
     (case RecalculateTargetLayers c of
        Inl e \<Rightarrow> Inl e
      | Inr (changed, newTargetSpatialLayer, newTargetTemporalLayer) \<Rightarrow>
          if changed
          then (if externallyManagedBitrate c
                then (if newTargetSpatialLayer \<noteq> targetSpatialLayer c \<or> force
                      then Inr (emit OnConsumerNeedBitrateChange c)
                      else Inr c)
                else UpdateTargetLayers c newTargetSpatialLayer newTargetTemporalLayer)
          else Inr c)"

subsection \<open>Bitrate allocation\<close>

definition virtualBitrateFor ::
  "('sm, 'ss) deps \<Rightarrow> ('sm, 'ss) consumer \<Rightarrow> u32 \<Rightarrow> bool \<Rightarrow> u32" where
  "virtualBitrateFor d c availableBitrate considerLoss =
     (if considerLoss
      then (let lossPct = lossPercentage (rtpStream c) in
            if lossPct < 2 then boostBitrate d availableBitrate
            else if lossPct > 10 then penaltyBitrate d lossPct availableBitrate
            else availableBitrate)
      else availableBitrate)"

text \<open>
  The loop over the temporal layers of one stream. The flag of the result says that the
  loop left through \<open>goto done\<close>.
\<close>

function temporalLoop ::
  "rtp_stream \<Rightarrow> int \<Rightarrow> u32 \<Rightarrow> int \<Rightarrow> ('sm, 'ss) consumer \<Rightarrow> u32 \<Rightarrow> ('sm, 'ss) consumer \<times> u32 \<times> bool" where
  "temporalLoop st spatialLayer virtualBitrate temporalLayer c usedBitrate =
     (if temporalLayer < getTemporalLayers st
      then (let requiredBitrate = getBitrate st temporalLayer in
            if requiredBitrate = 0 then (c, usedBitrate, False)
            else if requiredBitrate > virtualBitrate then (c, usedBitrate, True)
            else (let c1 = c\<lparr>provisionalTargetSpatialLayer := spatialLayer,
                              provisionalTargetTemporalLayer := temporalLayer\<rparr>
                  in if provisionalTargetSpatialLayer c1 = preferredSpatialLayer c1 \<and>
                        provisionalTargetTemporalLayer c1 = preferredTemporalLayer c1 \<and>
                        getScore st \<ge> StreamGoodScore
                     then (c1, requiredBitrate, True)
                     else temporalLoop st spatialLayer virtualBitrate (temporalLayer + 1) c1
                            requiredBitrate))
      else (c, usedBitrate, False))"
  by pat_completeness auto
termination
  by (relation "measure (\<lambda>(st, spatialLayer, virtualBitrate, temporalLayer, c, usedBitrate).
        nat (getTemporalLayers st - temporalLayer))") auto

declare temporalLoop.simps [simp del]

text \<open>
  The loop over the spatial layers. It ends with the consumer (the provisional target
  layers are members) and \<open>usedBitrate\<close>; both loop exits and \<open>goto done\<close> lead to
  the same place.
\<close>

fun spatialLoop ::
  "u32 \<Rightarrow> nat \<Rightarrow> rtp_stream option list \<Rightarrow> ('sm, 'ss) consumer \<Rightarrow> u32 \<Rightarrow> u8 \<Rightarrow>
   error + ('sm, 'ss) consumer \<times> u32" where
  "spatialLoop virtualBitrate sIdx [] c usedBitrate maxProducerScore = Inr (c, usedBitrate)"
| "spatialLoop virtualBitrate sIdx (producerRtpStream # rest) c usedBitrate maxProducerScore =
     (let spatialLayer = int16_of_nat sIdx in
      case producerRtpStream of
        None \<Rightarrow> spatialLoop virtualBitrate (Suc sIdx) rest c usedBitrate maxProducerScore
      | Some st \<Rightarrow>
          if getScore st = 0
          then spatialLoop virtualBitrate (Suc sIdx) rest c usedBitrate maxProducerScore
          else if usedBitrate > 0 \<and> getActiveTime st < StreamMinActiveTime
          then spatialLoop virtualBitrate (Suc sIdx) rest c usedBitrate maxProducerScore
          else (case CanSwitchToSpatialLayer c spatialLayer of
                  Inl e \<Rightarrow> Inl e
                | Inr canSwitch \<Rightarrow>
                    if \<not> canSwitch
                    then spatialLoop virtualBitrate (Suc sIdx) rest c usedBitrate maxProducerScore
                    else if getScore st < maxProducerScore \<and> getScore st < StreamGoodScore
                    then spatialLoop virtualBitrate (Suc sIdx) rest c usedBitrate maxProducerScore
                    else (case temporalLoop st spatialLayer virtualBitrate 0 c usedBitrate of
                            (c1, usedBitrate1, done) \<Rightarrow>
                              if done then Inr (c1, usedBitrate1)
                              else if provisionalTargetSpatialLayer c1 \<ge> preferredSpatialLayer c1 \<and>
                                      getScore st \<ge> StreamGoodScore
                              then Inr (c1, usedBitrate1)
                              else spatialLoop virtualBitrate (Suc sIdx) rest c1 usedBitrate1
                                     (getScore st))))"

text \<open>The value returned for a used bitrate, lines 526 to 533.\<close>

definition recomputeUsedBitrate :: "u32 \<Rightarrow> u32 \<Rightarrow> u32 \<Rightarrow> u32" where
  "recomputeUsedBitrate usedBitrate availableBitrate virtualBitrate =
     (if usedBitrate \<le> availableBitrate then usedBitrate
      else if usedBitrate \<le> virtualBitrate then availableBitrate
      else usedBitrate)"

text \<open>The layer scan of \<open>UseAvailableBitrate\<close>, from the reset of the provisional layers
  to the label \<open>done\<close>.\<close>

definition layerScan ::
  "('sm, 'ss) consumer \<Rightarrow> u32 \<Rightarrow> error + ('sm, 'ss) consumer \<times> u32" where
  "layerScan c virtualBitrate =
     spatialLoop virtualBitrate 0 (producerRtpStreams c)
       (c\<lparr>provisionalTargetSpatialLayer := -1, provisionalTargetTemporalLayer := -1\<rparr>) 0 0"

definition UseAvailableBitrate ::
  "('sm, 'ss) deps \<Rightarrow> ('sm, 'ss) consumer \<Rightarrow> u32 \<Rightarrow> bool \<Rightarrow> error + ('sm, 'ss) consumer \<times> u32" where
  "UseAvailableBitrate d c availableBitrate considerLoss =
     (if \<not> externallyManagedBitrate c then Inl AssertionFailed
      else if \<not> consumerActive c
      then Inr (c\<lparr>provisionalTargetSpatialLayer := -1, provisionalTargetTemporalLayer := -1\<rparr>, 0)
      else (let virtualBitrate = virtualBitrateFor d c availableBitrate considerLoss in
            case layerScan c virtualBitrate of
              Inl e \<Rightarrow> Inl e
            | Inr (c1, usedBitrate) \<Rightarrow>
                Inr (c1, recomputeUsedBitrate usedBitrate availableBitrate virtualBitrate)))"

function increaseLoop ::
  "rtp_stream \<Rightarrow> ('sm, 'ss) consumer \<Rightarrow> int \<Rightarrow> u32 \<Rightarrow> u32 \<times> int" where
  "increaseLoop st c temporalLayer requiredBitrate =
     (if temporalLayer < getTemporalLayers st
      then (if provisionalTargetSpatialLayer c \<ge> preferredSpatialLayer c \<and>
               temporalLayer > preferredTemporalLayer c
            then (requiredBitrate, temporalLayer)
            else (let requiredBitrate1 = getLayerBitrate st temporalLayer in
                  if requiredBitrate1 \<noteq> 0 then (requiredBitrate1, temporalLayer)
                  else increaseLoop st c (temporalLayer + 1) requiredBitrate1))
      else (requiredBitrate, temporalLayer))"
  by pat_completeness auto
termination
  by (relation "measure (\<lambda>(st, c, temporalLayer, requiredBitrate).
        nat (getTemporalLayers st - temporalLayer))") auto

declare increaseLoop.simps [simp del]

definition IncreaseTemporalLayer ::
  "('sm, 'ss) deps \<Rightarrow> ('sm, 'ss) consumer \<Rightarrow> u32 \<Rightarrow> bool \<Rightarrow> error + ('sm, 'ss) consumer \<times> u32" where
  "IncreaseTemporalLayer d c availableBitrate considerLoss =
     (if \<not> externallyManagedBitrate c then Inl AssertionFailed
      else if \<not> consumerActive c then Inr (c, 0)
      else if provisionalTargetSpatialLayer c = -1 then Inr (c, 0)
      else if provisionalTargetSpatialLayer c = preferredSpatialLayer c \<and>
              provisionalTargetTemporalLayer c = preferredTemporalLayer c
      then Inr (c, 0)
      else (let virtualBitrate = virtualBitrateFor d c availableBitrate considerLoss in
            case GetProducerProvisionalTargetRtpStream c of
              Inl e \<Rightarrow> Inl e
            | Inr None \<Rightarrow> Inl AssertionFailed
            | Inr (Some st) \<Rightarrow>
                (case increaseLoop st c (int16_of_int (provisionalTargetTemporalLayer c + 1)) 0 of
                   (requiredBitrate, temporalLayer) \<Rightarrow>
                     if requiredBitrate = 0 then Inr (c, 0)
                     else if requiredBitrate > virtualBitrate then Inr (c, 0)
                     else Inr (c\<lparr>provisionalTargetTemporalLayer := temporalLayer\<rparr>,
                               recomputeUsedBitrate requiredBitrate availableBitrate virtualBitrate))))"

definition ApplyLayers :: "('sm, 'ss) consumer \<Rightarrow> error + ('sm, 'ss) consumer" where
  "ApplyLayers c =
     (if \<not> externallyManagedBitrate c then Inl AssertionFailed
      else (let savedSpatialLayer = provisionalTargetSpatialLayer c;
                savedTemporalLayer = provisionalTargetTemporalLayer c;
                c1 = c\<lparr>provisionalTargetSpatialLayer := -1, provisionalTargetTemporalLayer := -1\<rparr>
            in if \<not> consumerActive c1 then Inr c1
               else if savedSpatialLayer \<noteq> targetSpatialLayer c1 \<or>
                       savedTemporalLayer \<noteq> targetTemporalLayer c1
               then UpdateTargetLayers c1 savedSpatialLayer savedTemporalLayer
               else Inr c1))"

subsection \<open>Requests and producer events\<close>

text \<open>
  \<open>CONSUMER_SET_PREFERRED_LAYERS\<close>: the preferred layers read from the request data and
  clamped, lines 200 to 225. \<open>get<int16_t>()\<close> narrows the unsigned number.
\<close>

definition requestedSpatialLayer :: "('sm, 'ss) consumer \<Rightarrow> nat \<Rightarrow> int" where
  "requestedSpatialLayer c n =
     (let v = int16_of_nat n in
      if v > spatialLayers (rtpStream c) - 1
      then int16_of_int (spatialLayers (rtpStream c) - 1) else v)"

definition requestedTemporalLayer :: "('sm, 'ss) consumer \<Rightarrow> json_value option \<Rightarrow> int" where
  "requestedTemporalLayer c j =
     (case j of
        Some (JsonUnsigned n) \<Rightarrow>
          (let v = int16_of_nat n in
           if v > sendTemporalLayers (rtpStream c) - 1
           then int16_of_int (sendTemporalLayers (rtpStream c) - 1) else v)
      | _ \<Rightarrow> int16_of_int (sendTemporalLayers (rtpStream c) - 1))"

definition HandleRequest ::
  "('sm, 'ss) deps \<Rightarrow> ('sm, 'ss) consumer \<Rightarrow> request \<Rightarrow> error + ('sm, 'ss) consumer" where
  "HandleRequest d c req =
     (case methodId req of
        CONSUMER_REQUEST_KEY_FRAME \<Rightarrow>
          (case (if IsActive d c then RequestKeyFrames c else Inr c) of
             Inl e \<Rightarrow> Inl e
           | Inr c1 \<Rightarrow> Inr (emit RequestAccept c1))
      | CONSUMER_SET_PREFERRED_LAYERS \<Rightarrow>
          (let previousPreferredSpatialLayer = preferredSpatialLayer c;
               previousPreferredTemporalLayer = preferredTemporalLayer c
           in case jsonSpatialLayer req of
                Some (JsonUnsigned n) \<Rightarrow>
                  (let c1 = c\<lparr>preferredSpatialLayer := requestedSpatialLayer c n\<rparr>;
                       c2 = c1\<lparr>preferredTemporalLayer :=
                                 requestedTemporalLayer c1 (jsonTemporalLayer req)\<rparr>;
                       c3 = emit RequestAccept c2
                   in if IsActive d c3 \<and>
                         (preferredSpatialLayer c3 \<noteq> previousPreferredSpatialLayer \<or>
                          preferredTemporalLayer c3 \<noteq> previousPreferredTemporalLayer)
                      then MayChangeLayers c3 True
                      else Inr c3)
              | _ \<Rightarrow> Inl TypeError)
      | OTHER_METHOD m \<Rightarrow>
          (case ConsumerHandleRequest d req (consumerActive c) of
             Inl e \<Rightarrow> Inl e
           | Inr (active, evs) \<Rightarrow> Inr (c\<lparr>consumerActive := active, events := events c @ evs\<rparr>)))"

text \<open>\<open>this->producerRtpStreams[spatialLayer] = rtpStream\<close> after the lookup of the ssrc.\<close>

definition setProducerRtpStream ::
  "('sm, 'ss) consumer \<Rightarrow> rtp_stream option \<Rightarrow> u32 \<Rightarrow> error + ('sm, 'ss) consumer" where
  "setProducerRtpStream c st mappedSsrc =
     (case mapMappedSsrcSpatialLayer c mappedSsrc of
        None \<Rightarrow> Inl AssertionFailed
      | Some spatialLayer \<Rightarrow>
          if 0 \<le> spatialLayer \<and> nat spatialLayer < length (producerRtpStreams c)
          then Inr (c\<lparr>producerRtpStreams := (producerRtpStreams c)[nat spatialLayer := st]\<rparr>)
          else Inl OutOfRange)"

definition ProducerRtpStream ::
  "('sm, 'ss) consumer \<Rightarrow> rtp_stream option \<Rightarrow> u32 \<Rightarrow> error + ('sm, 'ss) consumer" where
  "ProducerRtpStream c st mappedSsrc = setProducerRtpStream c st mappedSsrc"

definition ProducerNewRtpStream ::
  "('sm, 'ss) deps \<Rightarrow> ('sm, 'ss) consumer \<Rightarrow> rtp_stream option \<Rightarrow> u32 \<Rightarrow>
   error + ('sm, 'ss) consumer" where
  "ProducerNewRtpStream d c st mappedSsrc =
     (case setProducerRtpStream c st mappedSsrc of
        Inl e \<Rightarrow> Inl e
      | Inr c1 \<Rightarrow> if IsActive d c1 then MayChangeLayers c1 False else Inr c1)"

text \<open>
  The first part of \<open>ProducerRtpStreamScore\<close>: the score event, emitted when the stream
  whose score changed is the current one (a comparison of pointers).
\<close>

definition emitScoreIfCurrent ::
  "('sm, 'ss) consumer \<Rightarrow> rtp_stream option \<Rightarrow> error + ('sm, 'ss) consumer" where
  "emitScoreIfCurrent c st =
     (case GetProducerCurrentRtpStream c of
        Inl e \<Rightarrow> Inl e
      | Inr producerCurrentRtpStream \<Rightarrow>
          if map_option ptr st = map_option ptr producerCurrentRtpStream
          then EmitScore c else Inr c)"

definition ProducerRtpStreamScore ::
  "('sm, 'ss) consumer \<Rightarrow> rtp_stream option \<Rightarrow> u8 \<Rightarrow> u8 \<Rightarrow> error + ('sm, 'ss) consumer" where
  "ProducerRtpStreamScore c st newScore previousScore =
     (case emitScoreIfCurrent c st of
        Inl e \<Rightarrow> Inl e
      | Inr c1 \<Rightarrow>
          if consumerActive c1
          then (if \<not> externallyManagedBitrate c1 \<or> (newScore = 0 \<or> previousScore = 0)
                then MayChangeLayers c1 False
                else Inr c1)
          else Inr c1)"

definition ProducerRtcpSenderReport ::
  "('sm, 'ss) deps \<Rightarrow> ('sm, 'ss) consumer \<Rightarrow> rtp_stream option \<Rightarrow> bool \<Rightarrow>
   error + ('sm, 'ss) consumer" where
  "ProducerRtcpSenderReport d c st first =
     (if \<not> first then Inr c
      else (case GetProducerCurrentRtpStream c of
              Inl e \<Rightarrow> Inl e
            | Inr None \<Rightarrow> Inr c
            | Inr (Some cur) \<Rightarrow>
                if getSenderReportNtpMs cur = 0 then Inr c
                else if IsActive d c then MayChangeLayers c False
                else Inr c))"

subsection \<open>Transport and stream events\<close>

definition UserOnTransportConnected ::
  "('sm, 'ss) deps \<Rightarrow> ('sm, 'ss) consumer \<Rightarrow> error + ('sm, 'ss) consumer" where
  "UserOnTransportConnected d c =
     (let c1 = c\<lparr>syncRequired := True\<rparr> in
      if IsActive d c1 then MayChangeLayers c1 False else Inr c1)"

definition UserOnTransportDisconnected ::
  "('sm, 'ss) deps \<Rightarrow> ('sm, 'ss) consumer \<Rightarrow> error + ('sm, 'ss) consumer" where
  "UserOnTransportDisconnected d c =
     UpdateTargetLayers (c\<lparr>rtpStream := Pause d (rtpStream c)\<rparr>) (-1) (-1)"

definition UserOnPaused ::
  "('sm, 'ss) deps \<Rightarrow> ('sm, 'ss) consumer \<Rightarrow> error + ('sm, 'ss) consumer" where
  "UserOnPaused d c =
     (case UpdateTargetLayers (c\<lparr>rtpStream := Pause d (rtpStream c)\<rparr>) (-1) (-1) of
        Inl e \<Rightarrow> Inl e
      | Inr c1 \<Rightarrow>
          if externallyManagedBitrate c1 then Inr (emit OnConsumerNeedBitrateChange c1)
          else Inr c1)"

definition UserOnResumed ::
  "('sm, 'ss) deps \<Rightarrow> ('sm, 'ss) consumer \<Rightarrow> error + ('sm, 'ss) consumer" where
  "UserOnResumed d c =
     (let c1 = c\<lparr>syncRequired := True\<rparr> in
      if IsActive d c1 then MayChangeLayers c1 False else Inr c1)"

definition OnRtpStreamScore ::
  "('sm, 'ss) deps \<Rightarrow> ('sm, 'ss) consumer \<Rightarrow> error + ('sm, 'ss) consumer" where
  "OnRtpStreamScore d c =
     (case EmitScore c of
        Inl e \<Rightarrow> Inl e
      | Inr c1 \<Rightarrow>
          if IsActive d c1
          then (if \<not> externallyManagedBitrate c1 then MayChangeLayers c1 False else Inr c1)
          else Inr c1)"

definition OnRtpStreamRetransmitRtpPacket ::
  "('sm, 'ss) consumer \<Rightarrow> rtp_packet \<Rightarrow> ('sm, 'ss) consumer" where
  "OnRtpStreamRetransmitRtpPacket c packet = emit (OnConsumerRetransmitRtpPacket packet) c"

definition ReceiveNack ::
  "('sm, 'ss) deps \<Rightarrow> ('sm, 'ss) consumer \<Rightarrow> nack_packet \<Rightarrow> ('sm, 'ss) consumer" where
  "ReceiveNack d c nackPacket =
     (if \<not> IsActive d c then c
      else c\<lparr>rtpStream := rtpStreamReceiveNack d nackPacket (rtpStream c)\<rparr>)"

definition ReceiveKeyFrameRequest ::
  "('sm, 'ss) deps \<Rightarrow> ('sm, 'ss) consumer \<Rightarrow> key_frame_message_type \<Rightarrow>
   error + ('sm, 'ss) consumer" where
  "ReceiveKeyFrameRequest d c messageType =
     (let c1 = c\<lparr>rtpStream := rtpStreamReceiveKeyFrameRequest d messageType (rtpStream c)\<rparr> in
      if IsActive d c1 then RequestKeyFrameForCurrentSpatialLayer c1 else Inr c1)"

definition ReceiveRtcpReceiverReport ::
  "('sm, 'ss) deps \<Rightarrow> ('sm, 'ss) consumer \<Rightarrow> receiver_report \<Rightarrow> ('sm, 'ss) consumer" where
  "ReceiveRtcpReceiverReport d c report =
     c\<lparr>rtpStream := rtpStreamReceiveRtcpReceiverReport d report (rtpStream c)\<rparr>"

text \<open>
  \<open>GetRtcp\<close>: \<open>sameStream\<close> is the outcome of the pointer comparison of the assertion.
  The compound packet that receives the report belongs to the caller.
\<close>

definition GetRtcp ::
  "('sm, 'ss) deps \<Rightarrow> ('sm, 'ss) consumer \<Rightarrow> bool \<Rightarrow> u64 \<Rightarrow> error + ('sm, 'ss) consumer" where
  "GetRtcp d c sameStream now =
     (if \<not> sameStream then Inl AssertionFailed
      else if \<not> rtcpIntervalElapsed d now (lastRtcpSentTime c) then Inr c
      else (case GetRtcpSenderReport d now (rtpStream c) of
              (hasReport, s1) \<Rightarrow>
                if \<not> hasReport then Inr (c\<lparr>rtpStream := s1\<rparr>)
                else Inr (c\<lparr>rtpStream := s1, lastRtcpSentTime := now\<rparr>)))"

subsection \<open>SendRtpPacket\<close>

text \<open>
  The function returns nothing; the model also says through which \<open>return\<close> the call
  left. \<open>Sent p\<close> and \<open>SendFailed p\<close> carry the rewritten packet \<open>p\<close> that was handed
  to \<open>rtpStream->ReceivePacket\<close>, accepted or refused.
\<close>

datatype send_exit =
    NotActive
  | NoTargetTemporalLayer
  | UnsupportedPayloadType
  | TargetNotKeyFrame
  | OtherSpatialLayer
  | SyncNotKeyFrame
  | PayloadDropped
  | Sent rtp_packet
  | SendFailed rtp_packet

text \<open>
  The switch of the current spatial layer, lines 785 to 809, for a key frame of the target
  layer.
\<close>

definition switchCurrentSpatialLayer ::
  "('sm, 'ss) deps \<Rightarrow> ('sm, 'ss) consumer \<Rightarrow> rtp_packet \<Rightarrow> error + ('sm, 'ss) consumer" where
  "switchCurrentSpatialLayer d c packet =
     (let c1 = c\<lparr>currentSpatialLayer := targetSpatialLayer c\<rparr>;
          c2 = c1\<lparr>encodingContext :=
                    SetCurrentTemporalLayer (uint (packetTemporalLayer packet))
                      (SetTargetTemporalLayer (targetTemporalLayer c1) (encodingContext c1))\<rparr>;
          c3 = c2\<lparr>rtpStream := ResetScore d 10 False (rtpStream c2)\<rparr>;
          c4 = EmitLayersChange c3
      in case EmitScore c4 of
           Inl e \<Rightarrow> Inl e
         | Inr c5 \<Rightarrow> Inr (c5\<lparr>syncRequired := True\<rparr>))"

text \<open>
  The timestamp offset of a stream that is not the reference, lines 840 to 869. The
  difference of the two NTP times is a signed 64-bit value; the product with the clock
  rate is taken in 64 bits and the division by 1000 truncates.
\<close>

definition ntpTsOffset :: "rtp_stream \<Rightarrow> rtp_stream \<Rightarrow> u32 \<Rightarrow> u32" where
  "ntpTsOffset ref cur clock =
     (let ntpMs1 = getSenderReportNtpMs ref;
          ts1 = getSenderReportTs ref;
          ntpMs2 = getSenderReportNtpMs cur;
          ts2 = getSenderReportTs cur;
          diffMs = (if ntpMs2 \<ge> ntpMs1 then sint (ntpMs2 - ntpMs1)
                    else sint (-1 * (ntpMs1 - ntpMs2)));
          diffTs = cdiv (sint (word_of_int (diffMs * uint clock) :: 64 word)) 1000;
          newTs2 = (word_of_int (uint ts2 - diffTs) :: u32)
      in newTs2 - ts1)"

definition syncTsOffset ::
  "('sm, 'ss) consumer \<Rightarrow> int \<Rightarrow> error + ('sm, 'ss) consumer" where
  "syncTsOffset c spatialLayer =
     (if spatialLayer = tsReferenceSpatialLayer c then Inr (c\<lparr>tsOffset := 0\<rparr>)
      else (case GetProducerTsReferenceRtpStream c of
              Inl e \<Rightarrow> Inl e
            | Inr producerTsReferenceRtpStream \<Rightarrow>
          (case GetProducerCurrentRtpStream c of
              Inl e \<Rightarrow> Inl e
            | Inr producerCurrentRtpStream \<Rightarrow>
          (case producerTsReferenceRtpStream of
              None \<Rightarrow> Inl NullDereference
            | Some ref \<Rightarrow>
                if getSenderReportNtpMs ref = 0 then Inl AssertionFailed
                else (case producerCurrentRtpStream of
                        None \<Rightarrow> Inl NullDereference
                      | Some cur \<Rightarrow>
                          if getSenderReportNtpMs cur = 0 then Inl AssertionFailed
                          else Inr (c\<lparr>tsOffset :=
                                       ntpTsOffset ref cur (clockRate (rtpStream c))\<rparr>))))))"

text \<open>The block run for the first packet after a re-sync, lines 824 to 899.\<close>

definition syncPacket ::
  "('sm, 'ss) deps \<Rightarrow> ('sm, 'ss) consumer \<Rightarrow> rtp_packet \<Rightarrow> int \<Rightarrow> error + ('sm, 'ss) consumer" where
  "syncPacket d c packet spatialLayer =
     (let c1 = c\<lparr>rtpSeqManager := SeqSync d (sequenceNumber packet - 1) (rtpSeqManager c)\<rparr> in
      case syncTsOffset c1 spatialLayer of
        Inl e \<Rightarrow> Inl e
      | Inr c2 \<Rightarrow>
          (let c3 = c2\<lparr>tsExtraOffsets := [], tsExtraOffetPacketCount := 0\<rparr>;
               c4 = (if timestamp packet - tsOffset c3 \<le> maxPacketTs (rtpStream c3)
                     then (let tsExtraOffset =
                                 maxPacketTs (rtpStream c3) - timestamp packet + tsOffset c3 + 1
                           in c3\<lparr>tsExtraOffsets :=
                                   AList.update (timestamp packet) tsExtraOffset (tsExtraOffsets c3)\<rparr>)
                     else c3)
           in Inr (c4\<lparr>encodingContext := SyncRequired (encodingContext c4),
                       syncRequired := False\<rparr>)))"

text \<open>
  The outbound timestamp, lines 916 to 962: the consumer after the block and the timestamp
  to send.
\<close>

definition rewriteTimestamp ::
  "('sm, 'ss) consumer \<Rightarrow> rtp_packet \<Rightarrow> ('sm, 'ss) consumer \<times> u32" where
  "rewriteTimestamp c packet =
     (let ts = timestamp packet - tsOffset c in
      if tsExtraOffsets c \<noteq> []
      then (case (case map_of (tsExtraOffsets c) (timestamp packet) of
                    Some found \<Rightarrow> (found, c)
                  | None \<Rightarrow>
                      if ts < maxPacketTs (rtpStream c)
                      then (let generated = maxPacketTs (rtpStream c) - ts + 1 in
                            (generated,
                             c\<lparr>tsExtraOffsets :=
                                 AList.update (timestamp packet) generated (tsExtraOffsets c)\<rparr>))
                      else (0, c)) of
              (tsExtraOffset, c1) \<Rightarrow>
                (let c2 = (if tsExtraOffset \<noteq> 0
                           then c1\<lparr>tsExtraOffetPacketCount := tsExtraOffetPacketCount c1 + 1\<rparr>
                           else c1)
                 in if (tsExtraOffset \<noteq> 0 \<and> tsExtraOffetPacketCount c2 > 200) \<or>
                       tsExtraOffetPacketCount c2 > 500
                    then (c2\<lparr>tsExtraOffsets := [], tsExtraOffetPacketCount := 0\<rparr>,
                          ts + tsExtraOffset)
                    else (c2, ts + tsExtraOffset)))
      else (c, ts))"

text \<open>
  The end of the function, lines 964 to 1016: the sequence number, the rewrite, the send
  stream, and the restoration of the packet.
\<close>

definition rewriteAndSend ::
  "('sm, 'ss) deps \<Rightarrow> ('sm, 'ss) consumer \<Rightarrow> rtp_packet \<Rightarrow> u32 \<Rightarrow>
   ('sm, 'ss) consumer \<times> rtp_packet \<times> send_exit" where
  "rewriteAndSend d c packet ts =
     (case SeqInput d (sequenceNumber packet) (rtpSeqManager c) of
        (seq, sm1) \<Rightarrow>
          (let c1 = c\<lparr>rtpSeqManager := sm1\<rparr>;
               origSsrc = ssrc packet;
               origSeq = sequenceNumber packet;
               origTimestamp = timestamp packet;
               rewritten = packet\<lparr>ssrc := outputSsrc c1, sequenceNumber := seq, timestamp := ts\<rparr>
           in case ReceivePacket d (rtpStream c1) rewritten of
                (accepted, s1) \<Rightarrow>
                  (let c2 = c1\<lparr>rtpStream := s1\<rparr>;
                       c3 = (if accepted then emit (OnConsumerSendRtpPacket rewritten) c2 else c2);
                       restored = RestorePayload
                         (rewritten\<lparr>ssrc := origSsrc, sequenceNumber := origSeq,
                                    timestamp := origTimestamp\<rparr>)
                   in (c3, restored, if accepted then Sent rewritten else SendFailed rewritten))))"

text \<open>
  The part after the filters, lines 820 to 1016, for a packet of the current spatial
  layer.
\<close>

definition forwardPacket ::
  "('sm, 'ss) deps \<Rightarrow> ('sm, 'ss) consumer \<Rightarrow> rtp_packet \<Rightarrow> int \<Rightarrow>
   error + ('sm, 'ss) consumer \<times> rtp_packet \<times> send_exit" where
  "forwardPacket d c packet spatialLayer =
     (let isSyncPacket = syncRequired c in
      case (if isSyncPacket then syncPacket d c packet spatialLayer else Inr c) of
        Inl e \<Rightarrow> Inl e
      | Inr c1 \<Rightarrow>
          (let previousTemporalLayer = GetCurrentTemporalLayer (encodingContext c1) in
           case PacketProcessPayload d (encodingContext c1) packet of
             (ok, ec1, packet1) \<Rightarrow>
               (let c2 = c1\<lparr>encodingContext := ec1\<rparr> in
                if \<not> ok
                then Inr (c2\<lparr>rtpSeqManager :=
                               SeqDrop d (sequenceNumber packet1) (rtpSeqManager c2)\<rparr>,
                          packet1, PayloadDropped)
                else (let c3 = (if previousTemporalLayer \<noteq>
                                   GetCurrentTemporalLayer (encodingContext c2)
                                then EmitLayersChange c2 else c2)
                      in case rewriteTimestamp c3 packet1 of
                           (c4, ts) \<Rightarrow> Inr (rewriteAndSend d c4 packet1 ts)))))"

definition SendRtpPacket ::
  "('sm, 'ss) deps \<Rightarrow> ('sm, 'ss) consumer \<Rightarrow> rtp_packet \<Rightarrow>
   error + ('sm, 'ss) consumer \<times> rtp_packet \<times> send_exit" where
  "SendRtpPacket d c packet =
     (if \<not> IsActive d c then Inr (c, packet, NotActive)
      else if targetTemporalLayer c = -1 then Inr (c, packet, NoTargetTemporalLayer)
      else if payloadType packet \<notin> supportedCodecPayloadTypes c
      then Inr (c, packet, UnsupportedPayloadType)
      else (case mapMappedSsrcSpatialLayer c (ssrc packet) of
              None \<Rightarrow> Inl OutOfRange
            | Some spatialLayer \<Rightarrow>
                if currentSpatialLayer c \<noteq> targetSpatialLayer c \<and>
                   spatialLayer = targetSpatialLayer c \<and> \<not> isKeyFrame packet
                then Inr (c, packet, TargetNotKeyFrame)
                else (case (if currentSpatialLayer c \<noteq> targetSpatialLayer c \<and>
                               spatialLayer = targetSpatialLayer c
                            then switchCurrentSpatialLayer d c packet else Inr c) of
                        Inl e \<Rightarrow> Inl e
                      | Inr c1 \<Rightarrow>
                          if spatialLayer \<noteq> currentSpatialLayer c1
                          then Inr (c1, packet, OtherSpatialLayer)
                          else if syncRequired c1 \<and> \<not> isKeyFrame packet
                          then Inr (c1, packet, SyncNotKeyFrame)
                          else forwardPacket d c1 packet spatialLayer)))"

subsection \<open>The operations of a consumer\<close>

text \<open>
  The entry points of the class that can change the instance: the overrides of the base
  class and the callbacks of the send stream. The \<open>const\<close> members (\<open>FillJson\<close>,
  \<open>GetBitratePriority\<close>, \<open>GetDesiredBitrate\<close>, \<open>GetRtt\<close>, ...) change nothing, and
  \<open>GetTransmissionRate\<close> and \<open>NeedWorstRemoteFractionLost\<close> only read the send stream.
\<close>

datatype operation =
    OpHandleRequest request
  | OpProducerRtpStream "rtp_stream option" u32
  | OpProducerNewRtpStream "rtp_stream option" u32
  | OpProducerRtpStreamScore "rtp_stream option" u8 u8
  | OpProducerRtcpSenderReport "rtp_stream option" bool
  | OpUseAvailableBitrate u32 bool
  | OpIncreaseTemporalLayer u32 bool
  | OpApplyLayers
  | OpSendRtpPacket rtp_packet
  | OpGetRtcp bool u64
  | OpReceiveNack nack_packet
  | OpReceiveKeyFrameRequest key_frame_message_type
  | OpReceiveRtcpReceiverReport receiver_report
  | OpUserOnTransportConnected
  | OpUserOnTransportDisconnected
  | OpUserOnPaused
  | OpUserOnResumed
  | OpOnRtpStreamScore
  | OpOnRtpStreamRetransmitRtpPacket rtp_packet

fun step ::
  "('sm, 'ss) deps \<Rightarrow> ('sm, 'ss) consumer \<Rightarrow> operation \<Rightarrow> error + ('sm, 'ss) consumer" where
  "step d c (OpHandleRequest req) = HandleRequest d c req"
| "step d c (OpProducerRtpStream st mappedSsrc) = ProducerRtpStream c st mappedSsrc"
| "step d c (OpProducerNewRtpStream st mappedSsrc) = ProducerNewRtpStream d c st mappedSsrc"
| "step d c (OpProducerRtpStreamScore st newScore previousScore) =
     ProducerRtpStreamScore c st newScore previousScore"
| "step d c (OpProducerRtcpSenderReport st first) = ProducerRtcpSenderReport d c st first"
| "step d c (OpUseAvailableBitrate availableBitrate considerLoss) =
     map_sum id fst (UseAvailableBitrate d c availableBitrate considerLoss)"
| "step d c (OpIncreaseTemporalLayer availableBitrate considerLoss) =
     map_sum id fst (IncreaseTemporalLayer d c availableBitrate considerLoss)"
| "step d c OpApplyLayers = ApplyLayers c"
| "step d c (OpSendRtpPacket packet) = map_sum id fst (SendRtpPacket d c packet)"
| "step d c (OpGetRtcp sameStream now) = GetRtcp d c sameStream now"
| "step d c (OpReceiveNack nackPacket) = Inr (ReceiveNack d c nackPacket)"
| "step d c (OpReceiveKeyFrameRequest messageType) = ReceiveKeyFrameRequest d c messageType"
| "step d c (OpReceiveRtcpReceiverReport report) = Inr (ReceiveRtcpReceiverReport d c report)"
| "step d c OpUserOnTransportConnected = UserOnTransportConnected d c"
| "step d c OpUserOnTransportDisconnected = UserOnTransportDisconnected d c"
| "step d c OpUserOnPaused = UserOnPaused d c"
| "step d c OpUserOnResumed = UserOnResumed d c"
| "step d c OpOnRtpStreamScore = OnRtpStreamScore d c"
| "step d c (OpOnRtpStreamRetransmitRtpPacket packet) =
     Inr (OnRtpStreamRetransmitRtpPacket c packet)"

text \<open>Invariant 1 of the data model.\<close>

definition layersInvariant :: "('sm, 'ss) consumer \<Rightarrow> bool" where
  "layersInvariant c = (targetSpatialLayer c = -1 \<longrightarrow> currentSpatialLayer c = -1)"

text \<open>A slot that holds a stream with a score above zero.\<close>

definition hasScore :: "rtp_stream option \<Rightarrow> bool" where
  "hasScore slot = (case slot of None \<Rightarrow> False | Some st \<Rightarrow> getScore st \<noteq> 0)"

subsection \<open>A concrete consumer\<close>

text \<open>
  A video consumer of three spatial layers, with streams on layers 0 and 2, sending layer
  0. The collaborators accept every packet and leave the payload alone.
\<close>

definition exampleStream :: "nat \<Rightarrow> u8 \<Rightarrow> rtp_stream" where
  "exampleStream p sc =
     \<lparr>ptr = p, getScore = sc, getActiveTime = 5000, getTemporalLayers = 3,
      getBitrate = (\<lambda>t. if t = 0 then 100000 else if t = 1 then 180000 else 260000),
      getLayerBitrate = (\<lambda>t. 80000),
      getSenderReportNtpMs = 1000, getSenderReportTs = 90000\<rparr>"

definition exampleDeps :: "(u16, unit) deps" where
  "exampleDeps =
     \<lparr>IsActive = consumerActive,
      ProcessPayload = (\<lambda>ec packet. (True, ec, payload packet)),
      ReceivePacket = (\<lambda>s packet. (True, s)),
      ResetScore = (\<lambda>v notify s. s\<lparr>sendScore := v\<rparr>),
      Pause = (\<lambda>s. s),
      rtpStreamReceiveNack = (\<lambda>n s. s),
      rtpStreamReceiveKeyFrameRequest = (\<lambda>m s. s),
      rtpStreamReceiveRtcpReceiverReport = (\<lambda>r s. s),
      GetRtcpSenderReport = (\<lambda>now s. (True, s)),
      SeqSync = (\<lambda>input sm. sm),
      SeqDrop = (\<lambda>input sm. sm),
      SeqInput = (\<lambda>input sm. (sm + 1, sm + 1)),
      boostBitrate = (\<lambda>b. b),
      penaltyBitrate = (\<lambda>p b. b),
      rtcpIntervalElapsed = (\<lambda>now last. True),
      ConsumerHandleRequest = (\<lambda>req active. Inr (active, []))\<rparr>"

definition exampleConsumer :: "(u16, unit) consumer" where
  "exampleConsumer =
     \<lparr>kind = VIDEO, consumerActive = True, externallyManagedBitrate = True,
      supportedCodecPayloadTypes = {96},
      consumableSsrcs = [1000, 2000, 3000], outputSsrc = 5000,
      mapMappedSsrcSpatialLayer = [1000 \<mapsto> 0, 2000 \<mapsto> 1, 3000 \<mapsto> 2],
      producerRtpStreams = [Some (exampleStream 11 10), None, Some (exampleStream 13 10)],
      rtpStream = \<lparr>maxPacketTs = 200, sendScore = 10, lossPercentage = 0, fractionLost = 0,
                   clockRate = 90000, spatialLayers = 3, sendTemporalLayers = 3,
                   internals = ()\<rparr>,
      encodingContext = \<lparr>ecTargetTemporalLayer = 2, ecCurrentTemporalLayer = 2,
                         ecSyncRequired = False\<rparr>,
      rtpSeqManager = 0,
      preferredSpatialLayer = 2, preferredTemporalLayer = 2,
      provisionalTargetSpatialLayer = -1, provisionalTargetTemporalLayer = -1,
      targetSpatialLayer = 0, targetTemporalLayer = 2,
      currentSpatialLayer = 0, tsReferenceSpatialLayer = 0,
      syncRequired = False, tsOffset = 0, tsExtraOffsets = [], tsExtraOffetPacketCount = 0,
      lastRtcpSentTime = 0, events = []\<rparr>"

definition examplePacket :: rtp_packet where
  "examplePacket =
     \<lparr>ssrc = 1000, sequenceNumber = 7, timestamp = 100, payloadType = 96,
      isKeyFrame = False, packetTemporalLayer = 0, payload = [1, 2, 3],
      savedPayload = None\<rparr>"


section \<open>Properties\<close>

subsection \<open>CanSwitchToSpatialLayer\<close>

text \<open>
  C5. For a spatial layer \<open>s\<close> whose slot holds a stream, \<open>CanSwitchToSpatialLayer\<close>
  returns true exactly when there is no timestamp reference layer yet, or \<open>s\<close> is the
  reference layer, or the reference stream and the stream of \<open>s\<close> both have a non-zero
  \<open>senderReportNtpMs\<close>. It returns false exactly when none of the first two holds and one
  of the two streams has no sender report. (When the answer depends on the reference
  stream and its slot is empty, the call dereferences a null pointer and returns nothing.)
\<close>

theorem CanSwitchToSpatialLayer_iff:
  assumes "streamAt c s = Inr (Some st)"
  shows "(CanSwitchToSpatialLayer c s = Inr True \<longleftrightarrow>
            tsReferenceSpatialLayer c = -1 \<or> s = tsReferenceSpatialLayer c \<or>
            (case GetProducerTsReferenceRtpStream c of
               Inr (Some ref) \<Rightarrow> getSenderReportNtpMs ref \<noteq> 0 \<and> getSenderReportNtpMs st \<noteq> 0
             | _ \<Rightarrow> False)) \<and>
         (CanSwitchToSpatialLayer c s = Inr False \<longleftrightarrow>
            tsReferenceSpatialLayer c \<noteq> -1 \<and> s \<noteq> tsReferenceSpatialLayer c \<and>
            (case GetProducerTsReferenceRtpStream c of
               Inr (Some ref) \<Rightarrow> getSenderReportNtpMs ref = 0 \<or> getSenderReportNtpMs st = 0
             | _ \<Rightarrow> False))"
  using assms
  by (auto simp: CanSwitchToSpatialLayer_def split: sum.splits option.splits)

theorem CanSwitchToSpatialLayer_iff_witness:
  "streamAt exampleConsumer 2 = Inr (Some (exampleStream 13 10)) \<and>
   CanSwitchToSpatialLayer exampleConsumer 2 = Inr True"
proof -
  have h: "streamAt exampleConsumer 2 = Inr (Some (exampleStream 13 10))"
    by (simp add: streamAt_def exampleConsumer_def)
  have r: "GetProducerTsReferenceRtpStream exampleConsumer = Inr (Some (exampleStream 11 10))"
    by (simp add: GetProducerTsReferenceRtpStream_def streamAt_def exampleConsumer_def)
  show ?thesis
    using h CanSwitchToSpatialLayer_iff [OF h] r
    by (simp add: exampleStream_def)
qed

subsection \<open>The invariant of the target and current spatial layers\<close>

lemma layersInvariant_emit [simp]: "layersInvariant (emit e c) = layersInvariant c"
  by (simp add: layersInvariant_def emit_def)

lemma EmitScore_layers:
  "EmitScore c = Inr c' \<Longrightarrow>
   targetSpatialLayer c' = targetSpatialLayer c \<and> currentSpatialLayer c' = currentSpatialLayer c"
  by (auto simp: EmitScore_def emit_def split: sum.splits)

lemma RequestKeyFrameForTargetSpatialLayer_layers:
  "RequestKeyFrameForTargetSpatialLayer c = Inr c' \<Longrightarrow>
   targetSpatialLayer c' = targetSpatialLayer c \<and> currentSpatialLayer c' = currentSpatialLayer c"
  by (auto simp: RequestKeyFrameForTargetSpatialLayer_def emit_def
      split: if_splits sum.splits option.splits)

lemma RequestKeyFrameForCurrentSpatialLayer_layers:
  "RequestKeyFrameForCurrentSpatialLayer c = Inr c' \<Longrightarrow>
   targetSpatialLayer c' = targetSpatialLayer c \<and> currentSpatialLayer c' = currentSpatialLayer c"
  by (auto simp: RequestKeyFrameForCurrentSpatialLayer_def emit_def
      split: if_splits sum.splits option.splits)

lemma RequestKeyFrames_layers:
  "RequestKeyFrames c = Inr c' \<Longrightarrow>
   targetSpatialLayer c' = targetSpatialLayer c \<and> currentSpatialLayer c' = currentSpatialLayer c"
  by (auto simp: RequestKeyFrames_def emit_def
      split: if_splits sum.splits option.splits)

lemma UpdateTargetLayers_invariant:
  "UpdateTargetLayers c s t = Inr c' \<Longrightarrow> layersInvariant c'"
  by (auto simp: UpdateTargetLayers_def Let_def EmitLayersChange_def emit_def
      layersInvariant_def
      dest!: RequestKeyFrameForTargetSpatialLayer_layers
      split: if_splits)

lemma MayChangeLayers_invariant:
  "layersInvariant c \<Longrightarrow> MayChangeLayers c force = Inr c' \<Longrightarrow> layersInvariant c'"
  by (auto simp: MayChangeLayers_def dest: UpdateTargetLayers_invariant
      split: sum.splits if_splits prod.splits)

lemma layersInvariant_cong:
  "targetSpatialLayer c' = targetSpatialLayer c \<and> currentSpatialLayer c' = currentSpatialLayer c \<Longrightarrow>
   layersInvariant c' = layersInvariant c"
  by (simp add: layersInvariant_def)

lemma HandleRequest_invariant:
  assumes inv: "layersInvariant c" and run: "HandleRequest d c req = Inr c'"
  shows "layersInvariant c'"
proof (cases "methodId req")
  case CONSUMER_REQUEST_KEY_FRAME
  then obtain c1 where c1: "(if IsActive d c then RequestKeyFrames c else Inr c) = Inr c1"
    and c': "c' = emit RequestAccept c1"
    using run by (auto simp: HandleRequest_def split: sum.splits)
  from c1 have "layersInvariant c1"
    using inv by (auto simp: layersInvariant_def dest!: RequestKeyFrames_layers split: if_splits)
  then show ?thesis by (simp add: c')
next
  case CONSUMER_SET_PREFERRED_LAYERS
  then obtain n where n: "jsonSpatialLayer req = Some (JsonUnsigned n)"
    using run by (auto simp: HandleRequest_def Let_def split: option.splits json_value.splits)
  define c3 where "c3 = emit RequestAccept
     (c\<lparr>preferredSpatialLayer := requestedSpatialLayer c n,
        preferredTemporalLayer :=
          requestedTemporalLayer (c\<lparr>preferredSpatialLayer := requestedSpatialLayer c n\<rparr>)
            (jsonTemporalLayer req)\<rparr>)"
  have inv3: "layersInvariant c3"
    using inv by (simp add: c3_def layersInvariant_def emit_def)
  have "MayChangeLayers c3 True = Inr c' \<or> c' = c3"
    using run CONSUMER_SET_PREFERRED_LAYERS n
    by (auto simp: HandleRequest_def Let_def c3_def split: if_splits)
  then show ?thesis using inv3 MayChangeLayers_invariant by blast
next
  case (OTHER_METHOD m)
  then show ?thesis
    using run inv by (auto simp: HandleRequest_def layersInvariant_def split: sum.splits)
qed

lemma setProducerRtpStream_layers:
  "setProducerRtpStream c st m = Inr c' \<Longrightarrow> layersInvariant c \<Longrightarrow> layersInvariant c'"
  by (auto simp: setProducerRtpStream_def layersInvariant_def split: option.splits if_splits)

lemma ProducerNewRtpStream_invariant:
  "layersInvariant c \<Longrightarrow> ProducerNewRtpStream d c st m = Inr c' \<Longrightarrow> layersInvariant c'"
  by (auto simp: ProducerNewRtpStream_def split: sum.splits if_splits
      dest: setProducerRtpStream_layers MayChangeLayers_invariant)

lemma emitScoreIfCurrent_layers:
  "emitScoreIfCurrent c st = Inr c' \<Longrightarrow> layersInvariant c \<Longrightarrow> layersInvariant c'"
  by (auto simp: emitScoreIfCurrent_def layersInvariant_def split: sum.splits if_splits
      dest!: EmitScore_layers)

lemma ProducerRtpStreamScore_invariant:
  "layersInvariant c \<Longrightarrow> ProducerRtpStreamScore c st a b = Inr c' \<Longrightarrow> layersInvariant c'"
  by (auto simp: ProducerRtpStreamScore_def split: sum.splits if_splits
      dest: emitScoreIfCurrent_layers MayChangeLayers_invariant)

lemma ProducerRtcpSenderReport_invariant:
  "layersInvariant c \<Longrightarrow> ProducerRtcpSenderReport d c st first = Inr c' \<Longrightarrow> layersInvariant c'"
  by (auto simp: ProducerRtcpSenderReport_def split: sum.splits if_splits option.splits
      dest: MayChangeLayers_invariant)

lemma temporalLoop_layers:
  "temporalLoop st sl vb t c u = (c', u', dn) \<Longrightarrow>
   targetSpatialLayer c' = targetSpatialLayer c \<and> currentSpatialLayer c' = currentSpatialLayer c"
proof (induction st sl vb t c u arbitrary: c' u' dn rule: temporalLoop.induct)
  case (1 st sl vb t c u)
  show ?case
  proof (cases "t < getTemporalLayers st \<and> getBitrate st t \<noteq> 0 \<and> \<not> getBitrate st t > vb \<and>
      \<not> (sl = preferredSpatialLayer c \<and> t = preferredTemporalLayer c \<and> getScore st \<ge> StreamGoodScore)")
    case True
    then have rec: "temporalLoop st sl vb (t + 1)
        (c\<lparr>provisionalTargetSpatialLayer := sl, provisionalTargetTemporalLayer := t\<rparr>)
        (getBitrate st t) = (c', u', dn)"
      using "1.prems" by (subst (asm) temporalLoop.simps) (auto simp: Let_def)
    from "1.IH" [OF _ refl _ _ refl _ rec] True show ?thesis by auto
  next
    case False
    then show ?thesis
      using "1.prems" by (subst (asm) temporalLoop.simps) (auto simp: Let_def split: if_splits)
  qed
qed

lemma spatialLoop_layers:
  "spatialLoop vb n xs c u m = Inr (c', u') \<Longrightarrow>
   targetSpatialLayer c' = targetSpatialLayer c \<and> currentSpatialLayer c' = currentSpatialLayer c"
proof (induction xs arbitrary: n c u m)
  case Nil
  then show ?case by simp
next
  case (Cons x xs)
  show ?case
    using Cons.prems
    by (auto simp: Let_def split: option.splits if_splits sum.splits prod.splits
        dest!: Cons.IH temporalLoop_layers)
qed

lemma UseAvailableBitrate_invariant:
  "layersInvariant c \<Longrightarrow> UseAvailableBitrate d c b cl = Inr (c', r) \<Longrightarrow> layersInvariant c'"
  by (auto simp: UseAvailableBitrate_def layerScan_def Let_def layersInvariant_def
      split: if_splits sum.splits dest!: spatialLoop_layers)

lemma IncreaseTemporalLayer_invariant:
  "layersInvariant c \<Longrightarrow> IncreaseTemporalLayer d c b cl = Inr (c', r) \<Longrightarrow> layersInvariant c'"
  by (auto simp: IncreaseTemporalLayer_def Let_def layersInvariant_def
      split: if_splits sum.splits option.splits prod.splits)

lemma ApplyLayers_invariant:
  "layersInvariant c \<Longrightarrow> ApplyLayers c = Inr c' \<Longrightarrow> layersInvariant c'"
  by (auto simp: ApplyLayers_def Let_def split: if_splits dest: UpdateTargetLayers_invariant)
     (simp_all add: layersInvariant_def)

lemma switchCurrentSpatialLayer_layers:
  "switchCurrentSpatialLayer d c packet = Inr c' \<Longrightarrow>
   targetSpatialLayer c' = targetSpatialLayer c \<and> currentSpatialLayer c' = targetSpatialLayer c \<and>
   syncRequired c'"
  by (auto simp: switchCurrentSpatialLayer_def Let_def EmitLayersChange_def emit_def
      split: sum.splits dest!: EmitScore_layers)

lemma syncTsOffset_layers:
  "syncTsOffset c sl = Inr c' \<Longrightarrow>
   targetSpatialLayer c' = targetSpatialLayer c \<and> currentSpatialLayer c' = currentSpatialLayer c"
  by (auto simp: syncTsOffset_def split: if_splits sum.splits option.splits)

lemma syncPacket_layers:
  "syncPacket d c packet sl = Inr c' \<Longrightarrow>
   targetSpatialLayer c' = targetSpatialLayer c \<and> currentSpatialLayer c' = currentSpatialLayer c"
  by (auto simp: syncPacket_def Let_def split: sum.splits dest!: syncTsOffset_layers)

lemma rewriteTimestamp_layers:
  "rewriteTimestamp c packet = (c', ts) \<Longrightarrow>
   targetSpatialLayer c' = targetSpatialLayer c \<and> currentSpatialLayer c' = currentSpatialLayer c"
  by (auto simp: rewriteTimestamp_def Let_def split: if_splits option.splits prod.splits)

lemma rewriteAndSend_layers:
  "rewriteAndSend d c packet ts = (c', packet', ex) \<Longrightarrow>
   targetSpatialLayer c' = targetSpatialLayer c \<and> currentSpatialLayer c' = currentSpatialLayer c"
  by (auto simp: rewriteAndSend_def Let_def emit_def split: prod.splits if_splits)

lemma forwardPacket_cases:
  assumes run: "forwardPacket d c packet sl = Inr (c', packet', ex)"
  obtains (dropped) c1 ec1 where
      "(if syncRequired c then syncPacket d c packet sl else Inr c) = Inr c1"
      "PacketProcessPayload d (encodingContext c1) packet = (False, ec1, packet')"
      "c' = c1\<lparr>encodingContext := ec1,
                rtpSeqManager := SeqDrop d (sequenceNumber packet') (rtpSeqManager c1)\<rparr>"
      "ex = PayloadDropped"
  | (forwarded) c1 ec1 packet1 c3 c4 ts where
      "(if syncRequired c then syncPacket d c packet sl else Inr c) = Inr c1"
      "PacketProcessPayload d (encodingContext c1) packet = (True, ec1, packet1)"
      "c3 = (if GetCurrentTemporalLayer (encodingContext c1) \<noteq> GetCurrentTemporalLayer ec1
             then EmitLayersChange (c1\<lparr>encodingContext := ec1\<rparr>)
             else c1\<lparr>encodingContext := ec1\<rparr>)"
      "rewriteTimestamp c3 packet1 = (c4, ts)"
      "rewriteAndSend d c4 packet1 ts = (c', packet', ex)"
proof -
  obtain c1 where c1: "(if syncRequired c then syncPacket d c packet sl else Inr c) = Inr c1"
    using run
    by (cases "(if syncRequired c then syncPacket d c packet sl else Inr c)")
       (simp_all add: forwardPacket_def)
  obtain ok ec1 packet1 where
    pp: "PacketProcessPayload d (encodingContext c1) packet = (ok, ec1, packet1)"
    by (cases "PacketProcessPayload d (encodingContext c1) packet") auto
  show thesis
  proof (cases ok)
    case False
    with run c1 pp have "packet' = packet1" "ex = PayloadDropped"
      "c' = c1\<lparr>encodingContext := ec1,
                rtpSeqManager := SeqDrop d (sequenceNumber packet') (rtpSeqManager c1)\<rparr>"
      by (auto simp: forwardPacket_def Let_def)
    with c1 pp False show thesis using dropped by simp
  next
    case True
    define c3 where "c3 =
      (if GetCurrentTemporalLayer (encodingContext c1) \<noteq> GetCurrentTemporalLayer ec1
       then EmitLayersChange (c1\<lparr>encodingContext := ec1\<rparr>)
       else c1\<lparr>encodingContext := ec1\<rparr>)"
    obtain c4 ts where rt: "rewriteTimestamp c3 packet1 = (c4, ts)"
      by (cases "rewriteTimestamp c3 packet1") auto
    have "rewriteAndSend d c4 packet1 ts = (c', packet', ex)"
      using run c1 pp True rt
      by (simp add: forwardPacket_def Let_def c3_def)
    with c1 pp True rt c3_def show thesis using forwarded by simp
  qed
qed

lemma forwardPacket_layers:
  assumes "forwardPacket d c packet sl = Inr (c', packet', ex)"
  shows "targetSpatialLayer c' = targetSpatialLayer c \<and>
         currentSpatialLayer c' = currentSpatialLayer c"
  using assms
proof (cases rule: forwardPacket_cases)
  case (dropped c1 ec1)
  from dropped(1) have "targetSpatialLayer c1 = targetSpatialLayer c \<and>
      currentSpatialLayer c1 = currentSpatialLayer c"
    by (auto split: if_splits dest!: syncPacket_layers)
  then show ?thesis by (simp add: dropped(3))
next
  case (forwarded c1 ec1 packet1 c3 c4 ts)
  from forwarded(1) have 1: "targetSpatialLayer c1 = targetSpatialLayer c \<and>
      currentSpatialLayer c1 = currentSpatialLayer c"
    by (auto split: if_splits dest!: syncPacket_layers)
  have 3: "targetSpatialLayer c3 = targetSpatialLayer c1 \<and>
      currentSpatialLayer c3 = currentSpatialLayer c1"
    by (simp add: forwarded(3) EmitLayersChange_def emit_def)
  from rewriteTimestamp_layers [OF forwarded(4)] rewriteAndSend_layers [OF forwarded(5)] 1 3
  show ?thesis by simp
qed

lemma SendRtpPacket_cases:
  assumes run: "SendRtpPacket d c packet = Inr (c', packet', ex)"
  obtains (filtered) "c' = c" "packet' = packet"
      "ex = NotActive \<or> ex = NoTargetTemporalLayer \<or> ex = UnsupportedPayloadType \<or>
       ex = TargetNotKeyFrame"
  | (skipped) sl c1 where
      "mapMappedSsrcSpatialLayer c (ssrc packet) = Some sl"
      "(if currentSpatialLayer c \<noteq> targetSpatialLayer c \<and> sl = targetSpatialLayer c
        then switchCurrentSpatialLayer d c packet else Inr c) = Inr c1"
      "c' = c1" "packet' = packet" "ex = OtherSpatialLayer \<or> ex = SyncNotKeyFrame"
  | (passed) sl c1 where
      "mapMappedSsrcSpatialLayer c (ssrc packet) = Some sl"
      "(if currentSpatialLayer c \<noteq> targetSpatialLayer c \<and> sl = targetSpatialLayer c
        then switchCurrentSpatialLayer d c packet else Inr c) = Inr c1"
      "sl = currentSpatialLayer c1"
      "syncRequired c1 \<longrightarrow> isKeyFrame packet"
      "forwardPacket d c1 packet sl = Inr (c', packet', ex)"
proof (cases "\<not> IsActive d c \<or> targetTemporalLayer c = -1 \<or>
    payloadType packet \<notin> supportedCodecPayloadTypes c")
  case True
  then show thesis using run filtered
    by (auto simp: SendRtpPacket_def split: if_splits)
next
  case pre: False
  then obtain sl where sl: "mapMappedSsrcSpatialLayer c (ssrc packet) = Some sl"
    using run by (cases "mapMappedSsrcSpatialLayer c (ssrc packet)") (auto simp: SendRtpPacket_def)
  show thesis
  proof (cases "currentSpatialLayer c \<noteq> targetSpatialLayer c \<and> sl = targetSpatialLayer c \<and>
      \<not> isKeyFrame packet")
    case True
    then show thesis using run pre sl filtered by (simp add: SendRtpPacket_def)
  next
    case nk: False
    obtain c1 where c1:
      "(if currentSpatialLayer c \<noteq> targetSpatialLayer c \<and> sl = targetSpatialLayer c
        then switchCurrentSpatialLayer d c packet else Inr c) = Inr c1"
      using run pre sl nk
      by (cases "(if currentSpatialLayer c \<noteq> targetSpatialLayer c \<and> sl = targetSpatialLayer c
        then switchCurrentSpatialLayer d c packet else Inr c)")
         (auto simp: SendRtpPacket_def split: if_splits)
    have rest: "(if sl \<noteq> currentSpatialLayer c1 then Inr (c1, packet, OtherSpatialLayer)
          else if syncRequired c1 \<and> \<not> isKeyFrame packet then Inr (c1, packet, SyncNotKeyFrame)
          else forwardPacket d c1 packet sl) = Inr (c', packet', ex)"
      using run pre sl nk c1 by (auto simp: SendRtpPacket_def split: if_splits)
    show thesis
    proof (cases "sl \<noteq> currentSpatialLayer c1 \<or> (syncRequired c1 \<and> \<not> isKeyFrame packet)")
      case True
      then show thesis using rest sl c1 skipped by (auto split: if_splits)
    next
      case False
      then show thesis using rest sl c1 passed by (auto split: if_splits)
    qed
  qed
qed

lemma switch_or_keep_invariant:
  assumes "layersInvariant c"
    and "(if currentSpatialLayer c \<noteq> targetSpatialLayer c \<and> sl = targetSpatialLayer c
          then switchCurrentSpatialLayer d c packet else Inr c) = Inr c1"
  shows "layersInvariant c1"
  using assms
  by (auto simp: layersInvariant_def split: if_splits dest!: switchCurrentSpatialLayer_layers)

lemma SendRtpPacket_invariant:
  assumes inv: "layersInvariant c" and run: "SendRtpPacket d c packet = Inr (c', packet', ex)"
  shows "layersInvariant c'"
  using run
proof (cases rule: SendRtpPacket_cases)
  case filtered
  then show ?thesis using inv by simp
next
  case (skipped sl c1)
  then show ?thesis using switch_or_keep_invariant [OF inv skipped(2)] by simp
next
  case (passed sl c1)
  from switch_or_keep_invariant [OF inv passed(2)] forwardPacket_layers [OF passed(5)]
  show ?thesis by (simp add: layersInvariant_def)
qed

lemma GetRtcp_invariant:
  "layersInvariant c \<Longrightarrow> GetRtcp d c same now = Inr c' \<Longrightarrow> layersInvariant c'"
  by (auto simp: GetRtcp_def layersInvariant_def split: if_splits prod.splits)

lemma ReceiveKeyFrameRequest_invariant:
  "layersInvariant c \<Longrightarrow> ReceiveKeyFrameRequest d c m = Inr c' \<Longrightarrow> layersInvariant c'"
  by (auto simp: ReceiveKeyFrameRequest_def Let_def layersInvariant_def split: if_splits
      dest!: RequestKeyFrameForCurrentSpatialLayer_layers)

lemma UserOnTransportConnected_invariant:
  "layersInvariant c \<Longrightarrow> UserOnTransportConnected d c = Inr c' \<Longrightarrow> layersInvariant c'"
proof -
  assume inv: "layersInvariant c" and run: "UserOnTransportConnected d c = Inr c'"
  have "layersInvariant (c\<lparr>syncRequired := True\<rparr>)"
    using inv by (simp add: layersInvariant_def)
  then show ?thesis
    using run by (auto simp: UserOnTransportConnected_def Let_def split: if_splits
        dest: MayChangeLayers_invariant)
qed

lemma UserOnResumed_invariant:
  "layersInvariant c \<Longrightarrow> UserOnResumed d c = Inr c' \<Longrightarrow> layersInvariant c'"
proof -
  assume inv: "layersInvariant c" and run: "UserOnResumed d c = Inr c'"
  have "layersInvariant (c\<lparr>syncRequired := True\<rparr>)"
    using inv by (simp add: layersInvariant_def)
  then show ?thesis
    using run by (auto simp: UserOnResumed_def Let_def split: if_splits
        dest: MayChangeLayers_invariant)
qed

lemma UserOnPaused_invariant:
  "UserOnPaused d c = Inr c' \<Longrightarrow> layersInvariant c'"
  by (auto simp: UserOnPaused_def split: sum.splits if_splits dest: UpdateTargetLayers_invariant)

lemma OnRtpStreamScore_invariant:
  "layersInvariant c \<Longrightarrow> OnRtpStreamScore d c = Inr c' \<Longrightarrow> layersInvariant c'"
proof -
  assume inv: "layersInvariant c" and run: "OnRtpStreamScore d c = Inr c'"
  then obtain c1 where c1: "EmitScore c = Inr c1"
    by (auto simp: OnRtpStreamScore_def split: sum.splits)
  then have "layersInvariant c1"
    using inv by (auto simp: layersInvariant_def dest!: EmitScore_layers)
  then show ?thesis
    using run c1 by (auto simp: OnRtpStreamScore_def split: if_splits
        dest: MayChangeLayers_invariant)
qed

text \<open>
  C7. If the target spatial layer is -1 then the current spatial layer is -1: every
  operation of the consumer that returns keeps this.
\<close>

theorem layersInvariant_step:
  assumes "layersInvariant c" and "step d c op = Inr c'"
  shows "layersInvariant c'"
proof (cases op)
  case (OpHandleRequest req)
  then show ?thesis using assms HandleRequest_invariant by auto
next
  case (OpProducerRtpStream st m)
  then show ?thesis using assms by (auto simp: ProducerRtpStream_def dest: setProducerRtpStream_layers)
next
  case (OpProducerNewRtpStream st m)
  then show ?thesis using assms ProducerNewRtpStream_invariant by auto
next
  case (OpProducerRtpStreamScore st a b)
  then show ?thesis using assms ProducerRtpStreamScore_invariant by auto
next
  case (OpProducerRtcpSenderReport st first)
  then show ?thesis using assms ProducerRtcpSenderReport_invariant by auto
next
  case (OpUseAvailableBitrate b cl)
  then show ?thesis using assms
    by (cases "UseAvailableBitrate d c b cl") (auto dest: UseAvailableBitrate_invariant)
next
  case (OpIncreaseTemporalLayer b cl)
  then show ?thesis using assms
    by (cases "IncreaseTemporalLayer d c b cl") (auto dest: IncreaseTemporalLayer_invariant)
next
  case OpApplyLayers
  then show ?thesis using assms ApplyLayers_invariant by auto
next
  case (OpSendRtpPacket packet)
  then show ?thesis using assms
    by (cases "SendRtpPacket d c packet") (auto dest: SendRtpPacket_invariant)
next
  case (OpGetRtcp same now)
  then show ?thesis using assms GetRtcp_invariant by auto
next
  case (OpReceiveNack n)
  then show ?thesis using assms by (auto simp: ReceiveNack_def layersInvariant_def)
next
  case (OpReceiveKeyFrameRequest m)
  then show ?thesis using assms ReceiveKeyFrameRequest_invariant by auto
next
  case (OpReceiveRtcpReceiverReport r)
  then show ?thesis using assms by (auto simp: ReceiveRtcpReceiverReport_def layersInvariant_def)
next
  case OpUserOnTransportConnected
  then show ?thesis using assms UserOnTransportConnected_invariant by auto
next
  case OpUserOnTransportDisconnected
  then show ?thesis using assms
    by (auto simp: UserOnTransportDisconnected_def dest: UpdateTargetLayers_invariant)
next
  case OpUserOnPaused
  then show ?thesis using assms UserOnPaused_invariant by auto
next
  case OpUserOnResumed
  then show ?thesis using assms UserOnResumed_invariant by auto
next
  case OpOnRtpStreamScore
  then show ?thesis using assms OnRtpStreamScore_invariant by auto
next
  case (OpOnRtpStreamRetransmitRtpPacket packet)
  then show ?thesis using assms by (auto simp: OnRtpStreamRetransmitRtpPacket_def)
qed

theorem layersInvariant_step_witness:
  "layersInvariant exampleConsumer \<and>
   (case step exampleDeps exampleConsumer OpApplyLayers of
      Inl e \<Rightarrow> False
    | Inr c' \<Rightarrow> targetSpatialLayer c' = -1 \<and> currentSpatialLayer c' = -1 \<and> layersInvariant c')"
proof -
  have inv: "layersInvariant exampleConsumer"
    by (simp add: layersInvariant_def exampleConsumer_def)
  obtain c' where run: "step exampleDeps exampleConsumer OpApplyLayers = Inr c'"
    and t: "targetSpatialLayer c' = -1" and cu: "currentSpatialLayer c' = -1"
    by (simp add: ApplyLayers_def UpdateTargetLayers_def EmitLayersChange_def emit_def
        Let_def exampleConsumer_def)
  from layersInvariant_step [OF inv run] inv run t cu show ?thesis by simp
qed

subsection \<open>GetBitratePriority\<close>

lemma int16_of_nat_small: "n < 32768 \<Longrightarrow> int16_of_nat n = int n"
  by (simp add: int16_of_nat_def signed_of_nat signed_take_bit_int_eq_self)

lemma priorityLoop_found:
  assumes "p \<noteq> -1" and "n + length xs \<le> 32768"
  shows "(priorityLoop pref n xs p = p \<and>
            (\<forall>k<length xs. int (n + k) \<le> pref \<longrightarrow> \<not> hasScore (xs ! k))) \<or>
         (\<exists>k<length xs. priorityLoop pref n xs p = int (n + k) \<and> int (n + k) \<le> pref \<and>
            hasScore (xs ! k) \<and>
            (\<forall>k'<length xs. k < k' \<longrightarrow> int (n + k') \<le> pref \<longrightarrow> \<not> hasScore (xs ! k')))"
  using assms
proof (induction xs arbitrary: n p)
  case Nil
  then show ?case by simp
next
  case (Cons x xs)
  have n: "int16_of_nat n = int n" using Cons.prems by (simp add: int16_of_nat_small)
  show ?case
  proof (cases "int n > pref")
    case True
    then show ?thesis using Cons.prems n by (auto simp: Let_def)
  next
    case le: False
    show ?thesis
    proof (cases "hasScore x")
      case False
      then have eq: "priorityLoop pref n (x # xs) p = priorityLoop pref (Suc n) xs p"
        using le n by (auto simp: Let_def hasScore_def split: option.splits)
      from Cons.IH [of p "Suc n"] Cons.prems
      show ?thesis unfolding eq using False
        by (simp add: All_less_Suc2 Ex_less_Suc2 add.commute add.left_commute cong: if_cong)
    next
      case True
      then have eq: "priorityLoop pref n (x # xs) p = priorityLoop pref (Suc n) xs (int n)"
        using le n by (auto simp: Let_def hasScore_def split: option.splits)
      have "int n \<noteq> -1" by simp
      from Cons.IH [OF this, of "Suc n"] Cons.prems
      show ?thesis unfolding eq using True le
        by (simp add: All_less_Suc2 Ex_less_Suc2 add.commute add.left_commute cong: if_cong)
    qed
  qed
qed

lemma priorityLoop_none:
  assumes "n + length xs \<le> 32768"
  shows "(priorityLoop pref n xs (-1) = -1 \<and> (\<forall>k<length xs. \<not> hasScore (xs ! k))) \<or>
         (\<exists>j<length xs. priorityLoop pref n xs (-1) = int (n + j) \<and> hasScore (xs ! j) \<and>
            (if \<exists>i<length xs. int (n + i) \<le> pref \<and> hasScore (xs ! i)
             then int (n + j) \<le> pref \<and>
                  (\<forall>k<length xs. j < k \<longrightarrow> int (n + k) \<le> pref \<longrightarrow> \<not> hasScore (xs ! k))
             else (\<forall>k<j. \<not> hasScore (xs ! k))))"
  using assms
proof (induction xs arbitrary: n)
  case Nil
  then show ?case by simp
next
  case (Cons x xs)
  have n: "int16_of_nat n = int n" using Cons.prems by (simp add: int16_of_nat_small)
  show ?case
  proof (cases "hasScore x")
    case False
    then have eq: "priorityLoop pref n (x # xs) (-1) = priorityLoop pref (Suc n) xs (-1)"
      using n by (auto simp: Let_def hasScore_def split: option.splits)
    from Cons.IH [of "Suc n"] Cons.prems
    show ?thesis unfolding eq using False
      by (simp add: All_less_Suc2 Ex_less_Suc2 add.commute add.left_commute cong: if_cong)
  next
    case True
    then have eq: "priorityLoop pref n (x # xs) (-1) = priorityLoop pref (Suc n) xs (int n)"
      using n by (auto simp: Let_def hasScore_def split: option.splits)
    have "int n \<noteq> -1" by simp
    from priorityLoop_found [OF this, of "Suc n" xs pref] Cons.prems
    show ?thesis unfolding eq using True
      apply (simp add: All_less_Suc2 Ex_less_Suc2 add.commute add.left_commute cong: if_cong)
      apply (elim disjE conjE exE)
       apply blast
      apply (intro conjI impI)
        apply blast
       apply blast
      apply (elim conjE)
      apply blast
      done
  qed
qed

text \<open>
  C4, as the code has it. With the bitrate externally managed (asserted) and at most 32768
  slots: \<open>GetBitratePriority\<close> returns 0 when the consumer is not active; 1 when it is
  active and no slot holds a stream with a score above 0; otherwise one plus the chosen
  spatial layer \<open>j\<close>. If some layer up to the preferred one has such a stream, \<open>j\<close> is
  the highest of them, so the result is at most \<open>preferredSpatialLayer + 1\<close>; if none
  has, \<open>j\<close> is the lowest layer with such a stream, which is above the preferred one.
\<close>

theorem GetBitratePriority_value:
  assumes "externallyManagedBitrate c" and "length (producerRtpStreams c) \<le> 32768"
  shows "(\<not> consumerActive c \<longrightarrow> GetBitratePriority c = Inr 0) \<and>
         (consumerActive c \<and>
          (\<forall>i<length (producerRtpStreams c). \<not> hasScore (producerRtpStreams c ! i)) \<longrightarrow>
            GetBitratePriority c = Inr 1) \<and>
         (consumerActive c \<and>
          (\<exists>i<length (producerRtpStreams c). hasScore (producerRtpStreams c ! i)) \<longrightarrow>
            (\<exists>j<length (producerRtpStreams c).
               hasScore (producerRtpStreams c ! j) \<and>
               GetBitratePriority c = Inr (of_nat (j + 1)) \<and>
               (if \<exists>i<length (producerRtpStreams c).
                     int i \<le> preferredSpatialLayer c \<and> hasScore (producerRtpStreams c ! i)
                then int j \<le> preferredSpatialLayer c \<and>
                     (\<forall>k<length (producerRtpStreams c).
                        j < k \<longrightarrow> int k \<le> preferredSpatialLayer c \<longrightarrow>
                        \<not> hasScore (producerRtpStreams c ! k))
                else (\<forall>k<j. \<not> hasScore (producerRtpStreams c ! k)))))"
proof -
  let ?xs = "producerRtpStreams c"
  let ?r = "priorityLoop (preferredSpatialLayer c) 0 ?xs (-1)"
  have loop: "(?r = -1 \<and> (\<forall>k<length ?xs. \<not> hasScore (?xs ! k))) \<or>
         (\<exists>j<length ?xs. ?r = int j \<and> hasScore (?xs ! j) \<and>
            (if \<exists>i<length ?xs. int i \<le> preferredSpatialLayer c \<and> hasScore (?xs ! i)
             then int j \<le> preferredSpatialLayer c \<and>
                  (\<forall>k<length ?xs. j < k \<longrightarrow> int k \<le> preferredSpatialLayer c \<longrightarrow>
                     \<not> hasScore (?xs ! k))
             else (\<forall>k<j. \<not> hasScore (?xs ! k))))"
    using priorityLoop_none [of 0 ?xs "preferredSpatialLayer c"] assms(2)
    by (simp split del: if_split cong: if_cong)
  have 1: "\<not> consumerActive c \<longrightarrow> GetBitratePriority c = Inr 0"
    using assms(1) by (simp add: GetBitratePriority_def)
  have 2: "consumerActive c \<and> (\<forall>i<length ?xs. \<not> hasScore (?xs ! i)) \<longrightarrow>
      GetBitratePriority c = Inr 1"
    using assms(1) loop by (auto simp: GetBitratePriority_def Let_def)
  have 3: "consumerActive c \<and> (\<exists>i<length ?xs. hasScore (?xs ! i)) \<longrightarrow>
            (\<exists>j<length ?xs. hasScore (?xs ! j) \<and>
               GetBitratePriority c = Inr (of_nat (j + 1)) \<and>
               (if \<exists>i<length ?xs. int i \<le> preferredSpatialLayer c \<and> hasScore (?xs ! i)
                then int j \<le> preferredSpatialLayer c \<and>
                     (\<forall>k<length ?xs. j < k \<longrightarrow> int k \<le> preferredSpatialLayer c \<longrightarrow>
                        \<not> hasScore (?xs ! k))
                else (\<forall>k<j. \<not> hasScore (?xs ! k))))"
  proof
    assume a: "consumerActive c \<and> (\<exists>i<length ?xs. hasScore (?xs ! i))"
    with loop obtain j where j: "j < length ?xs" "?r = int j" "hasScore (?xs ! j)"
      "(if \<exists>i<length ?xs. int i \<le> preferredSpatialLayer c \<and> hasScore (?xs ! i)
             then int j \<le> preferredSpatialLayer c \<and>
                  (\<forall>k<length ?xs. j < k \<longrightarrow> int k \<le> preferredSpatialLayer c \<longrightarrow>
                     \<not> hasScore (?xs ! k))
             else (\<forall>k<j. \<not> hasScore (?xs ! k)))"
      by blast
    have "GetBitratePriority c = Inr (of_nat (j + 1))"
      using assms(1) a j(2) by (simp add: GetBitratePriority_def Let_def add.commute)
    with j show "\<exists>j<length ?xs. hasScore (?xs ! j) \<and>
               GetBitratePriority c = Inr (of_nat (j + 1)) \<and>
               (if \<exists>i<length ?xs. int i \<le> preferredSpatialLayer c \<and> hasScore (?xs ! i)
                then int j \<le> preferredSpatialLayer c \<and>
                     (\<forall>k<length ?xs. j < k \<longrightarrow> int k \<le> preferredSpatialLayer c \<longrightarrow>
                        \<not> hasScore (?xs ! k))
                else (\<forall>k<j. \<not> hasScore (?xs ! k)))"
      by blast
  qed
  from 1 2 3 show ?thesis by blast
qed

theorem GetBitratePriority_value_witness:
  "externallyManagedBitrate exampleConsumer \<and>
   length (producerRtpStreams exampleConsumer) \<le> 32768 \<and>
   consumerActive exampleConsumer \<and>
   hasScore (producerRtpStreams exampleConsumer ! 2) \<and>
   GetBitratePriority exampleConsumer = Inr 3 \<and>
   GetBitratePriority (exampleConsumer\<lparr>consumerActive := False\<rparr>) = Inr 0 \<and>
   GetBitratePriority (exampleConsumer\<lparr>producerRtpStreams := [None, None, None]\<rparr>) = Inr 1"
proof -
  have ext: "externallyManagedBitrate exampleConsumer"
    "externallyManagedBitrate (exampleConsumer\<lparr>consumerActive := False\<rparr>)"
    by (simp_all add: exampleConsumer_def)
  have len: "length (producerRtpStreams exampleConsumer) \<le> 32768"
    "length (producerRtpStreams (exampleConsumer\<lparr>consumerActive := False\<rparr>)) \<le> 32768"
    by (simp_all add: exampleConsumer_def)
  have ev: "GetBitratePriority exampleConsumer = Inr 3"
    by (simp add: GetBitratePriority_def int16_of_nat_def Let_def exampleConsumer_def
        exampleStream_def)
  have hs: "hasScore (producerRtpStreams exampleConsumer ! 2)"
    by (simp add: hasScore_def exampleConsumer_def exampleStream_def)
  have none: "GetBitratePriority (exampleConsumer\<lparr>producerRtpStreams := [None, None, None]\<rparr>) =
      Inr 1"
    by (simp add: GetBitratePriority_def int16_of_nat_def Let_def exampleConsumer_def)
  show ?thesis
    using GetBitratePriority_value [OF ext(1) len(1)] GetBitratePriority_value [OF ext(2) len(2)]
      ext len ev hs none
    by (simp add: exampleConsumer_def)
qed

text \<open>
  The cap does not hold for every configuration: with the only scored stream on layer 2 and
  the preferred layer 0, the result is 3.
\<close>

theorem GetBitratePriority_cap_counterexample:
  "consumerActive (exampleConsumer\<lparr>preferredSpatialLayer := 0,
      producerRtpStreams := [None, None, Some (exampleStream 13 10)]\<rparr>) \<and>
   GetBitratePriority (exampleConsumer\<lparr>preferredSpatialLayer := 0,
      producerRtpStreams := [None, None, Some (exampleStream 13 10)]\<rparr>) = Inr 3 \<and>
   \<not> uint (3 :: u16) \<le> preferredSpatialLayer (exampleConsumer\<lparr>preferredSpatialLayer := 0,
      producerRtpStreams := [None, None, Some (exampleStream 13 10)]\<rparr>) + 1 \<and>
   \<not> uint (3 :: u16) - 1 \<le> preferredSpatialLayer (exampleConsumer\<lparr>preferredSpatialLayer := 0,
      producerRtpStreams := [None, None, Some (exampleStream 13 10)]\<rparr>) + 1"
  by (simp add: GetBitratePriority_def int16_of_nat_def Let_def exampleConsumer_def
      exampleStream_def)

subsection \<open>UseAvailableBitrate\<close>

text \<open>
  C6. On an active consumer, with \<open>u\<close> the used bitrate of the layer scan and \<open>v\<close> the
  virtual bitrate, \<open>UseAvailableBitrate\<close> returns \<open>u\<close> if \<open>u \<le> bitrate\<close>, the
  bitrate if \<open>bitrate < u \<le> v\<close>, and \<open>u\<close> otherwise.
\<close>

theorem UseAvailableBitrate_result:
  assumes "externallyManagedBitrate c" and "consumerActive c"
    and "layerScan c (virtualBitrateFor d c b considerLoss) = Inr (c1, u)"
  shows "UseAvailableBitrate d c b considerLoss =
           Inr (c1, if u \<le> b then u
                    else if u \<le> virtualBitrateFor d c b considerLoss then b
                    else u)"
  using assms by (simp add: UseAvailableBitrate_def Let_def recomputeUsedBitrate_def)

theorem UseAvailableBitrate_result_witness:
  "externallyManagedBitrate exampleConsumer \<and> consumerActive exampleConsumer \<and>
   UseAvailableBitrate exampleDeps exampleConsumer 200000 False =
     Inr (exampleConsumer\<lparr>provisionalTargetSpatialLayer := 0,
            provisionalTargetTemporalLayer := 1\<rparr>, 180000)"
proof -
  have ext: "externallyManagedBitrate exampleConsumer" by (simp add: exampleConsumer_def)
  have act: "consumerActive exampleConsumer" by (simp add: exampleConsumer_def)
  have vb: "virtualBitrateFor exampleDeps exampleConsumer 200000 False = 200000"
    by (simp add: virtualBitrateFor_def)
  let ?c0 = "exampleConsumer\<lparr>provisionalTargetSpatialLayer := -1,
      provisionalTargetTemporalLayer := -1\<rparr>"
  have can: "CanSwitchToSpatialLayer ?c0 0 = Inr True"
    by (simp add: CanSwitchToSpatialLayer_def streamAt_def exampleConsumer_def)
  have pref: "preferredSpatialLayer exampleConsumer = 2" "preferredTemporalLayer exampleConsumer = 2"
    by (simp_all add: exampleConsumer_def)
  have tl: "temporalLoop (exampleStream 11 10) 0 200000 0 ?c0 0 =
      (?c0\<lparr>provisionalTargetSpatialLayer := 0, provisionalTargetTemporalLayer := 1\<rparr>,
       180000, True)"
    by (simp add: temporalLoop.simps Let_def pref exampleStream_def)
  have streams: "producerRtpStreams exampleConsumer =
      [Some (exampleStream 11 10), None, Some (exampleStream 13 10)]"
    by (simp add: exampleConsumer_def)
  have sc: "getScore (exampleStream 11 10) = 10" "getActiveTime (exampleStream 11 10) = 5000"
    by (simp_all add: exampleStream_def)
  have scan: "layerScan exampleConsumer (virtualBitrateFor exampleDeps exampleConsumer 200000 False) =
      Inr (exampleConsumer\<lparr>provisionalTargetSpatialLayer := 0,
            provisionalTargetTemporalLayer := 1\<rparr>, 180000)"
    unfolding vb layerScan_def streams
    by (simp add: int16_of_nat_def can tl sc StreamGoodScore_def)
  show ?thesis
    using ext act UseAvailableBitrate_result [OF ext act scan] vb by simp
qed

text \<open>
  The scan never takes a layer above the virtual bitrate, so the last branch of the
  recomputation is not reached: the value returned is the smaller of the used bitrate and
  the given one.
\<close>

lemma temporalLoop_used:
  "temporalLoop st sl vb t c u = (c', u', dn) \<Longrightarrow> u \<le> vb \<Longrightarrow> u' \<le> vb"
proof (induction st sl vb t c u arbitrary: c' u' dn rule: temporalLoop.induct)
  case (1 st sl vb t c u)
  show ?case
  proof (cases "t < getTemporalLayers st \<and> getBitrate st t \<noteq> 0 \<and> \<not> getBitrate st t > vb \<and>
      \<not> (sl = preferredSpatialLayer c \<and> t = preferredTemporalLayer c \<and> getScore st \<ge> StreamGoodScore)")
    case True
    then have rec: "temporalLoop st sl vb (t + 1)
        (c\<lparr>provisionalTargetSpatialLayer := sl, provisionalTargetTemporalLayer := t\<rparr>)
        (getBitrate st t) = (c', u', dn)"
      using "1.prems"(1) by (subst (asm) temporalLoop.simps) (auto simp: Let_def)
    from True have "getBitrate st t \<le> vb" by (simp add: not_less)
    from "1.IH" [OF _ refl _ _ refl _ rec this] True show ?thesis by auto
  next
    case False
    then show ?thesis
      using "1.prems" by (subst (asm) temporalLoop.simps) (auto simp: Let_def split: if_splits)
  qed
qed

lemma spatialLoop_used:
  "spatialLoop vb n xs c u m = Inr (c', u') \<Longrightarrow> u \<le> vb \<Longrightarrow> u' \<le> vb"
proof (induction xs arbitrary: n c u m)
  case Nil
  then show ?case by simp
next
  case (Cons x xs)
  show ?case
    using Cons.prems
    by (auto simp: Let_def split: option.splits if_splits sum.splits prod.splits
        dest: Cons.IH temporalLoop_used)
qed

lemma layerScan_used: "layerScan c vb = Inr (c', u) \<Longrightarrow> u \<le> vb"
  unfolding layerScan_def by (erule spatialLoop_used) simp

lemma UseAvailableBitrate_min:
  assumes "consumerActive c" and "UseAvailableBitrate d c b considerLoss = Inr (c', r)"
  shows "\<exists>u. layerScan c (virtualBitrateFor d c b considerLoss) = Inr (c', u) \<and> r = min u b"
  using assms
  by (auto simp: UseAvailableBitrate_def Let_def recomputeUsedBitrate_def min_def
      split: if_splits sum.splits dest: layerScan_used)

subsection \<open>ApplyLayers\<close>

lemma UpdateTargetLayers_provisional:
  "UpdateTargetLayers c s t = Inr c' \<Longrightarrow>
   provisionalTargetSpatialLayer c' = provisionalTargetSpatialLayer c \<and>
   provisionalTargetTemporalLayer c' = provisionalTargetTemporalLayer c"
  by (auto simp: UpdateTargetLayers_def Let_def EmitLayersChange_def emit_def
      RequestKeyFrameForTargetSpatialLayer_def
      split: if_splits sum.splits option.splits)

text \<open>
  C10. \<open>ApplyLayers\<close> resets the provisional target layers to -1 in every call that
  returns, also when the consumer is not active. It goes through \<open>UpdateTargetLayers\<close>
  only when the consumer is active and the saved provisional pair differs from the target
  pair; in the other cases nothing but the provisional layers changes.
\<close>

theorem ApplyLayers_effect:
  assumes "externallyManagedBitrate c"
  shows "ApplyLayers c =
           (if consumerActive c \<and>
               (provisionalTargetSpatialLayer c \<noteq> targetSpatialLayer c \<or>
                provisionalTargetTemporalLayer c \<noteq> targetTemporalLayer c)
            then UpdateTargetLayers
                   (c\<lparr>provisionalTargetSpatialLayer := -1, provisionalTargetTemporalLayer := -1\<rparr>)
                   (provisionalTargetSpatialLayer c) (provisionalTargetTemporalLayer c)
            else Inr (c\<lparr>provisionalTargetSpatialLayer := -1,
                         provisionalTargetTemporalLayer := -1\<rparr>)) \<and>
         (\<forall>c'. ApplyLayers c = Inr c' \<longrightarrow>
            provisionalTargetSpatialLayer c' = -1 \<and> provisionalTargetTemporalLayer c' = -1)"
proof -
  have eq: "ApplyLayers c =
           (if consumerActive c \<and>
               (provisionalTargetSpatialLayer c \<noteq> targetSpatialLayer c \<or>
                provisionalTargetTemporalLayer c \<noteq> targetTemporalLayer c)
            then UpdateTargetLayers
                   (c\<lparr>provisionalTargetSpatialLayer := -1, provisionalTargetTemporalLayer := -1\<rparr>)
                   (provisionalTargetSpatialLayer c) (provisionalTargetTemporalLayer c)
            else Inr (c\<lparr>provisionalTargetSpatialLayer := -1,
                         provisionalTargetTemporalLayer := -1\<rparr>))"
    using assms by (simp add: ApplyLayers_def Let_def)
  have "provisionalTargetSpatialLayer c' = -1 \<and> provisionalTargetTemporalLayer c' = -1"
    if "ApplyLayers c = Inr c'" for c'
    using that eq UpdateTargetLayers_provisional
      [of "c\<lparr>provisionalTargetSpatialLayer := -1, provisionalTargetTemporalLayer := -1\<rparr>"
          "provisionalTargetSpatialLayer c" "provisionalTargetTemporalLayer c" c']
    by (auto split: if_splits)
  with eq show ?thesis by blast
qed

theorem ApplyLayers_effect_witness:
  "externallyManagedBitrate
     (exampleConsumer\<lparr>provisionalTargetSpatialLayer := 2, provisionalTargetTemporalLayer := 1\<rparr>) \<and>
   (case ApplyLayers
      (exampleConsumer\<lparr>provisionalTargetSpatialLayer := 2, provisionalTargetTemporalLayer := 1\<rparr>) of
      Inl e \<Rightarrow> False
    | Inr c' \<Rightarrow> targetSpatialLayer c' = 2 \<and> targetTemporalLayer c' = 1 \<and>
        provisionalTargetSpatialLayer c' = -1 \<and> provisionalTargetTemporalLayer c' = -1 \<and>
        events c' = [OnConsumerKeyFrameRequested 3000])"
proof -
  let ?c = "exampleConsumer\<lparr>provisionalTargetSpatialLayer := 2, provisionalTargetTemporalLayer := 1\<rparr>"
  have ext: "externallyManagedBitrate ?c" by (simp add: exampleConsumer_def)
  have u: "UpdateTargetLayers
      (?c\<lparr>provisionalTargetSpatialLayer := -1, provisionalTargetTemporalLayer := -1\<rparr>) 2 1 =
      Inr (exampleConsumer\<lparr>targetSpatialLayer := 2, targetTemporalLayer := 1,
            events := [OnConsumerKeyFrameRequested 3000]\<rparr>)"
    by (simp add: UpdateTargetLayers_def RequestKeyFrameForTargetSpatialLayer_def
        GetProducerTargetRtpStream_def streamAt_def mappedSsrcAt_def emit_def Let_def
        exampleConsumer_def)
  show ?thesis
    using ext ApplyLayers_effect [OF ext] u
    by (simp add: exampleConsumer_def)
qed

subsection \<open>ProducerRtpStreamScore\<close>

text \<open>
  C8. After the score event for the current stream, \<open>ProducerRtpStreamScore\<close> calls
  \<open>MayChangeLayers\<close> exactly when \<open>RTC::Consumer::IsActive()\<close> holds and the bitrate is
  not externally managed or one of the two scores is 0. Otherwise it returns with the
  target layers as they were.
\<close>

theorem ProducerRtpStreamScore_reevaluates:
  assumes "emitScoreIfCurrent c st = Inr c1"
  shows "ProducerRtpStreamScore c st newScore previousScore =
           (if consumerActive c \<and>
               (\<not> externallyManagedBitrate c \<or> newScore = 0 \<or> previousScore = 0)
            then MayChangeLayers c1 False else Inr c1) \<and>
         targetSpatialLayer c1 = targetSpatialLayer c \<and>
         targetTemporalLayer c1 = targetTemporalLayer c"
  using assms
  by (auto simp: ProducerRtpStreamScore_def emitScoreIfCurrent_def EmitScore_def emit_def
      split: sum.splits if_splits)

theorem ProducerRtpStreamScore_reevaluates_witness:
  "emitScoreIfCurrent exampleConsumer (Some (exampleStream 11 10)) =
     Inr (emit (NotifyScore 10 10) exampleConsumer) \<and>
   ProducerRtpStreamScore exampleConsumer (Some (exampleStream 11 10)) 0 10 =
     MayChangeLayers (emit (NotifyScore 10 10) exampleConsumer) False \<and>
   ProducerRtpStreamScore exampleConsumer (Some (exampleStream 11 10)) 7 10 =
     Inr (emit (NotifyScore 10 10) exampleConsumer)"
proof -
  have e: "emitScoreIfCurrent exampleConsumer (Some (exampleStream 11 10)) =
     Inr (emit (NotifyScore 10 10) exampleConsumer)"
    by (simp add: emitScoreIfCurrent_def GetProducerCurrentRtpStream_def streamAt_def
        EmitScore_def exampleConsumer_def exampleStream_def)
  have a: "consumerActive exampleConsumer" "externallyManagedBitrate exampleConsumer"
    by (simp_all add: exampleConsumer_def)
  show ?thesis
    using e a ProducerRtpStreamScore_reevaluates [OF e, of 0 10]
      ProducerRtpStreamScore_reevaluates [OF e, of 7 10]
    by simp
qed

subsection \<open>Setting the preferred layers again\<close>

text \<open>
  C9. A \<open>CONSUMER_SET_PREFERRED_LAYERS\<close> request whose clamped layers are the stored
  preferred layers is accepted and nothing else happens: the consumer is the same but for
  the \<open>Accept\<close> of the request, so no layer changes and no key frame is requested.
\<close>

theorem HandleRequest_same_preferred_layers:
  assumes "methodId req = CONSUMER_SET_PREFERRED_LAYERS"
    and "jsonSpatialLayer req = Some (JsonUnsigned n)"
    and "requestedSpatialLayer c n = preferredSpatialLayer c"
    and "requestedTemporalLayer c (jsonTemporalLayer req) = preferredTemporalLayer c"
  shows "HandleRequest d c req = Inr (emit RequestAccept c)"
proof -
  have t: "requestedTemporalLayer (c\<lparr>preferredSpatialLayer := x\<rparr>) j = requestedTemporalLayer c j"
    for x j by (simp add: requestedTemporalLayer_def Let_def split: option.splits json_value.splits)
  show ?thesis
    using assms by (simp add: HandleRequest_def Let_def t emit_def)
qed

theorem HandleRequest_same_preferred_layers_witness:
  "requestedSpatialLayer exampleConsumer 5 = preferredSpatialLayer exampleConsumer \<and>
   requestedTemporalLayer exampleConsumer None = preferredTemporalLayer exampleConsumer \<and>
   HandleRequest exampleDeps exampleConsumer
     \<lparr>methodId = CONSUMER_SET_PREFERRED_LAYERS, jsonSpatialLayer = Some (JsonUnsigned 5),
      jsonTemporalLayer = None\<rparr> = Inr (emit RequestAccept exampleConsumer)"
proof -
  let ?req = "\<lparr>methodId = CONSUMER_SET_PREFERRED_LAYERS, jsonSpatialLayer = Some (JsonUnsigned 5),
      jsonTemporalLayer = None\<rparr>"
  have s: "requestedSpatialLayer exampleConsumer 5 = preferredSpatialLayer exampleConsumer"
    by (simp add: requestedSpatialLayer_def int16_of_nat_def int16_of_int_def Let_def
        exampleConsumer_def)
  have t: "requestedTemporalLayer exampleConsumer (jsonTemporalLayer ?req) =
      preferredTemporalLayer exampleConsumer"
    by (simp add: requestedTemporalLayer_def int16_of_int_def exampleConsumer_def)
  show ?thesis
    using s t HandleRequest_same_preferred_layers [of ?req 5 exampleConsumer exampleDeps, OF _ _ s t]
    by simp
qed

subsection \<open>SendRtpPacket: the packet after the call\<close>

lemma PacketProcessPayload_fields:
  "PacketProcessPayload d ec packet = (ok, ec', packet1) \<Longrightarrow>
   ssrc packet1 = ssrc packet \<and> sequenceNumber packet1 = sequenceNumber packet \<and>
   timestamp packet1 = timestamp packet \<and> payloadType packet1 = payloadType packet \<and>
   isKeyFrame packet1 = isKeyFrame packet \<and>
   packetTemporalLayer packet1 = packetTemporalLayer packet \<and>
   savedPayload packet1 = Some (payload packet) \<and>
   ProcessPayload d ec packet = (ok, ec', payload packet1)"
  by (auto simp: PacketProcessPayload_def split: prod.splits)

lemma rewriteAndSend_result:
  assumes "rewriteAndSend d c packet ts = (c', packet', ex)"
  shows "\<exists>p. (ex = Sent p \<or> ex = SendFailed p) \<and>
           p = packet\<lparr>ssrc := outputSsrc c,
                       sequenceNumber := fst (SeqInput d (sequenceNumber packet) (rtpSeqManager c)),
                       timestamp := ts\<rparr> \<and>
           packet' = RestorePayload packet \<and>
           tsOffset c' = tsOffset c \<and> tsExtraOffsets c' = tsExtraOffsets c"
  using assms
  by (auto simp: rewriteAndSend_def Let_def emit_def RestorePayload_def
      split: prod.splits if_splits option.splits)

lemma rewriteTimestamp_value:
  assumes "rewriteTimestamp c packet = (c4, ts)"
  shows "tsOffset c4 = tsOffset c \<and>
         (tsExtraOffsets c = [] \<longrightarrow> ts = timestamp packet - tsOffset c \<and> tsExtraOffsets c4 = []) \<and>
         (tsExtraOffsets c \<noteq> [] \<longrightarrow>
            (case map_of (tsExtraOffsets c) (timestamp packet) of
               Some x \<Rightarrow> ts = timestamp packet - tsOffset c + x
             | None \<Rightarrow>
                 if timestamp packet - tsOffset c < maxPacketTs (rtpStream c)
                 then ts = maxPacketTs (rtpStream c) + 1 \<and>
                      (tsExtraOffsets c4 =
                         AList.update (timestamp packet)
                           (maxPacketTs (rtpStream c) - (timestamp packet - tsOffset c) + 1)
                           (tsExtraOffsets c) \<or>
                       tsExtraOffsets c4 = [])
                 else ts = timestamp packet - tsOffset c))"
  using assms
  by (auto simp: rewriteTimestamp_def Let_def split: if_splits option.splits prod.splits)


lemma syncTsOffset_state:
  "syncTsOffset c sl = Inr c' \<Longrightarrow>
   rtpStream c' = rtpStream c \<and> encodingContext c' = encodingContext c \<and>
   rtpSeqManager c' = rtpSeqManager c"
  by (auto simp: syncTsOffset_def split: if_splits sum.splits option.splits)

lemma syncPacket_state:
  assumes "syncPacket d c packet sl = Inr cs"
  shows "rtpStream cs = rtpStream c \<and> tsExtraOffetPacketCount cs = 0 \<and>
         tsExtraOffsets cs =
           (if timestamp packet - tsOffset cs \<le> maxPacketTs (rtpStream c)
            then [(timestamp packet,
                   maxPacketTs (rtpStream c) - timestamp packet + tsOffset cs + 1)]
            else [])"
proof -
  obtain c2 where c2: "syncTsOffset
      (c\<lparr>rtpSeqManager := SeqSync d (sequenceNumber packet - 1) (rtpSeqManager c)\<rparr>) sl = Inr c2"
    using assms by (auto simp: syncPacket_def Let_def split: sum.splits)
  from syncTsOffset_state [OF c2] have s: "rtpStream c2 = rtpStream c" by simp
  show ?thesis
  proof (cases "timestamp packet - tsOffset c2 \<le> maxPacketTs (rtpStream c)")
    case True
    then show ?thesis using assms c2 s by (auto simp: syncPacket_def Let_def)
  next
    case False
    then show ?thesis using assms c2 s by (auto simp: syncPacket_def Let_def)
  qed
qed

lemma rewriteTimestamp_after_sync:
  assumes rt: "rewriteTimestamp c packet = (c4, ts)"
    and cnt: "tsExtraOffetPacketCount c = 0"
    and stored: "tsExtraOffsets c =
           (if timestamp packet - tsOffset c \<le> maxPacketTs (rtpStream c)
            then [(timestamp packet,
                   maxPacketTs (rtpStream c) - timestamp packet + tsOffset c + 1)]
            else [])"
  shows "ts = (if timestamp packet - tsOffset c \<le> maxPacketTs (rtpStream c)
               then maxPacketTs (rtpStream c) + 1
               else timestamp packet - tsOffset c)"
proof (cases "timestamp packet - tsOffset c \<le> maxPacketTs (rtpStream c)")
  case True
  with stored have st: "tsExtraOffsets c = [(timestamp packet,
      maxPacketTs (rtpStream c) - timestamp packet + tsOffset c + 1)]" by simp
  have "ts = timestamp packet - tsOffset c +
      (maxPacketTs (rtpStream c) - timestamp packet + tsOffset c + 1)"
    using rt by (auto simp: rewriteTimestamp_def Let_def st split: if_splits)
  then show ?thesis using True by simp
next
  case False
  with stored have "tsExtraOffsets c = []" by simp
  then show ?thesis using rt False by (auto simp: rewriteTimestamp_def Let_def)
qed

lemma switchCurrentSpatialLayer_state:
  "switchCurrentSpatialLayer d c packet = Inr c' \<Longrightarrow>
   rtpStream c' = ResetScore d 10 False (rtpStream c) \<and> syncRequired c'"
  by (auto simp: switchCurrentSpatialLayer_def Let_def EmitLayersChange_def emit_def
      EmitScore_def split: sum.splits)

lemma example_run:
  "SendRtpPacket exampleDeps exampleConsumer examplePacket =
     Inr (exampleConsumer\<lparr>rtpSeqManager := 1,
            events := [OnConsumerSendRtpPacket
              (examplePacket\<lparr>ssrc := 5000, sequenceNumber := 1,
                 savedPayload := Some [1, 2, 3]\<rparr>)]\<rparr>,
          examplePacket,
          Sent (examplePacket\<lparr>ssrc := 5000, sequenceNumber := 1,
                  savedPayload := Some [1, 2, 3]\<rparr>))"
  by (simp add: SendRtpPacket_def forwardPacket_def PacketProcessPayload_def
      rewriteTimestamp_def rewriteAndSend_def RestorePayload_def GetCurrentTemporalLayer_def
      emit_def Let_def exampleDeps_def exampleConsumer_def examplePacket_def)

lemma example_run_extra:
  "SendRtpPacket exampleDeps (exampleConsumer\<lparr>tsExtraOffsets := [(50, 7)]\<rparr>) examplePacket =
     Inr (exampleConsumer\<lparr>rtpSeqManager := 1,
            tsExtraOffsets := [(50, 7), (100, 101)], tsExtraOffetPacketCount := 1,
            events := [OnConsumerSendRtpPacket
              (examplePacket\<lparr>ssrc := 5000, sequenceNumber := 1, timestamp := 201,
                 savedPayload := Some [1, 2, 3]\<rparr>)]\<rparr>,
          examplePacket,
          Sent (examplePacket\<lparr>ssrc := 5000, sequenceNumber := 1, timestamp := 201,
                  savedPayload := Some [1, 2, 3]\<rparr>))"
  by (simp add: SendRtpPacket_def forwardPacket_def PacketProcessPayload_def
      rewriteTimestamp_def rewriteAndSend_def RestorePayload_def GetCurrentTemporalLayer_def
      emit_def Let_def exampleDeps_def exampleConsumer_def examplePacket_def)

lemma example_run_sync:
  "SendRtpPacket exampleDeps (exampleConsumer\<lparr>syncRequired := True\<rparr>)
     (examplePacket\<lparr>isKeyFrame := True\<rparr>) =
     Inr (exampleConsumer\<lparr>rtpSeqManager := 1,
            encodingContext := \<lparr>ecTargetTemporalLayer = 2, ecCurrentTemporalLayer = 2,
                                ecSyncRequired = True\<rparr>,
            tsExtraOffsets := [(100, 101)], tsExtraOffetPacketCount := 1,
            events := [OnConsumerSendRtpPacket
              (examplePacket\<lparr>isKeyFrame := True, ssrc := 5000, sequenceNumber := 1,
                 timestamp := 201, savedPayload := Some [1, 2, 3]\<rparr>)]\<rparr>,
          examplePacket\<lparr>isKeyFrame := True\<rparr>,
          Sent (examplePacket\<lparr>isKeyFrame := True, ssrc := 5000, sequenceNumber := 1,
                  timestamp := 201, savedPayload := Some [1, 2, 3]\<rparr>))"
  by (simp add: SendRtpPacket_def forwardPacket_def syncPacket_def syncTsOffset_def
      SyncRequired_def PacketProcessPayload_def
      rewriteTimestamp_def rewriteAndSend_def RestorePayload_def GetCurrentTemporalLayer_def
      emit_def Let_def exampleDeps_def exampleConsumer_def examplePacket_def)





subsection \<open>SendRtpPacket: the outbound timestamp\<close>

text \<open>
  C1, as the code has it. For a packet handed to the send stream, with
  \<open>T\<^sub>o\<^sub>u\<^sub>t = T\<^sub>i\<^sub>n - tsOffset\<close> modulo \<open>2\<^sup>3\<^sup>2\<close>:
  \<^item> not the first packet after a re-sync: with an empty map of extra offsets the
    timestamp sent is \<open>T\<^sub>o\<^sub>u\<^sub>t\<close>, whatever \<open>maxPacketTs\<close> is, and no extra offset is
    generated; with a non-empty map, a stored offset for \<open>T\<^sub>i\<^sub>n\<close> is added, and
    without one a fresh offset \<open>maxPacketTs - T\<^sub>o\<^sub>u\<^sub>t + 1\<close> is generated, stored (unless
    the map is cleared in the same call) and applied when \<open>T\<^sub>o\<^sub>u\<^sub>t < maxPacketTs\<close>, so
    that the timestamp sent is \<open>maxPacketTs + 1\<close>;
  \<^item> the first packet after a re-sync: the timestamp sent is \<open>maxPacketTs + 1\<close> when
    \<open>T\<^sub>o\<^sub>u\<^sub>t \<le> maxPacketTs\<close> and \<open>T\<^sub>o\<^sub>u\<^sub>t\<close> otherwise, with the new offset.
\<close>

theorem SendRtpPacket_timestamp:
  assumes run: "SendRtpPacket d c packet = Inr (c', packet', ex)"
    and out: "ex = Sent p \<or> ex = SendFailed p"
    and sl: "mapMappedSsrcSpatialLayer c (ssrc packet) = Some sl"
  shows "(\<not> syncRequired c \<and>
          \<not> (currentSpatialLayer c \<noteq> targetSpatialLayer c \<and> sl = targetSpatialLayer c) \<longrightarrow>
            (tsExtraOffsets c = [] \<longrightarrow>
               timestamp p = timestamp packet - tsOffset c \<and> tsExtraOffsets c' = []) \<and>
            (tsExtraOffsets c \<noteq> [] \<longrightarrow>
               (case map_of (tsExtraOffsets c) (timestamp packet) of
                  Some x \<Rightarrow> timestamp p = timestamp packet - tsOffset c + x
                | None \<Rightarrow>
                    if timestamp packet - tsOffset c < maxPacketTs (rtpStream c)
                    then timestamp p = maxPacketTs (rtpStream c) + 1 \<and>
                         (tsExtraOffsets c' =
                            AList.update (timestamp packet)
                              (maxPacketTs (rtpStream c) - (timestamp packet - tsOffset c) + 1)
                              (tsExtraOffsets c) \<or>
                          tsExtraOffsets c' = [])
                    else timestamp p = timestamp packet - tsOffset c))) \<and>
         (syncRequired c \<or>
          (currentSpatialLayer c \<noteq> targetSpatialLayer c \<and> sl = targetSpatialLayer c) \<longrightarrow>
            timestamp p =
              (let m = maxPacketTs
                         (if currentSpatialLayer c \<noteq> targetSpatialLayer c \<and>
                             sl = targetSpatialLayer c
                          then ResetScore d 10 False (rtpStream c) else rtpStream c)
               in if timestamp packet - tsOffset c' \<le> m then m + 1
                  else timestamp packet - tsOffset c'))"
  using run
proof (cases rule: SendRtpPacket_cases)
  case filtered
  then show ?thesis using out by auto
next
  case (skipped sl' c1)
  then show ?thesis using out by auto
next
  case (passed sl' c1)
  have sl': "sl' = sl" using passed(1) sl by simp
  from passed(5) show ?thesis
  proof (cases rule: forwardPacket_cases)
    case (dropped c2 ec1)
    then show ?thesis using out by auto
  next
    case (forwarded c2 ec1 packet1 c3 c4 ts)
    note pp = PacketProcessPayload_fields [OF forwarded(2)]
    from rewriteAndSend_result [OF forwarded(5)] out
    have p: "timestamp p = ts" and off': "tsOffset c' = tsOffset c4"
      and st': "tsExtraOffsets c' = tsExtraOffsets c4"
      by auto
    have c3: "tsOffset c3 = tsOffset c2" "tsExtraOffsets c3 = tsExtraOffsets c2"
      "rtpStream c3 = rtpStream c2" "tsExtraOffetPacketCount c3 = tsExtraOffetPacketCount c2"
      by (simp_all add: forwarded(3) EmitLayersChange_def emit_def)
    note rt = rewriteTimestamp_value [OF forwarded(4)]
    show ?thesis
    proof (cases "syncRequired c \<or>
        (currentSpatialLayer c \<noteq> targetSpatialLayer c \<and> sl = targetSpatialLayer c)")
      case False
      then have "c1 = c" using passed(2) sl' by (auto split: if_splits)
      with False forwarded(1) have c2: "c2 = c" by simp
      have first: "(tsExtraOffsets c = [] \<longrightarrow>
               timestamp p = timestamp packet - tsOffset c \<and> tsExtraOffsets c' = []) \<and>
            (tsExtraOffsets c \<noteq> [] \<longrightarrow>
               (case map_of (tsExtraOffsets c) (timestamp packet) of
                  Some x \<Rightarrow> timestamp p = timestamp packet - tsOffset c + x
                | None \<Rightarrow>
                    if timestamp packet - tsOffset c < maxPacketTs (rtpStream c)
                    then timestamp p = maxPacketTs (rtpStream c) + 1 \<and>
                         (tsExtraOffsets c' =
                            AList.update (timestamp packet)
                              (maxPacketTs (rtpStream c) - (timestamp packet - tsOffset c) + 1)
                              (tsExtraOffsets c) \<or>
                          tsExtraOffsets c' = [])
                    else timestamp p = timestamp packet - tsOffset c))"
        using rt pp p st' c3 c2 by (auto split: option.splits if_splits)
      from first False show ?thesis by blast
    next
      case True
      have s1: "syncRequired c1"
        and r1: "rtpStream c1 =
          (if currentSpatialLayer c \<noteq> targetSpatialLayer c \<and> sl = targetSpatialLayer c
           then ResetScore d 10 False (rtpStream c) else rtpStream c)"
        using True passed(2) sl'
        by (auto split: if_splits dest!: switchCurrentSpatialLayer_state)
      from s1 forwarded(1) have sy: "syncPacket d c1 packet sl' = Inr c2" by simp
      note ss = syncPacket_state [OF sy]
      have stored: "tsExtraOffsets c3 =
           (if timestamp packet1 - tsOffset c3 \<le> maxPacketTs (rtpStream c3)
            then [(timestamp packet1,
                   maxPacketTs (rtpStream c3) - timestamp packet1 + tsOffset c3 + 1)]
            else [])"
        using ss c3 pp by simp
      have cnt: "tsExtraOffetPacketCount c3 = 0" using ss c3 by simp
      from rewriteTimestamp_after_sync [OF forwarded(4) cnt stored]
      have "ts = (if timestamp packet - tsOffset c2 \<le> maxPacketTs (rtpStream c1)
               then maxPacketTs (rtpStream c1) + 1
               else timestamp packet - tsOffset c2)"
        using c3 pp ss by simp
      moreover have "tsOffset c' = tsOffset c2" using off' rt c3 by simp
      ultimately have second: "timestamp p =
              (let m = maxPacketTs
                         (if currentSpatialLayer c \<noteq> targetSpatialLayer c \<and>
                             sl = targetSpatialLayer c
                          then ResetScore d 10 False (rtpStream c) else rtpStream c)
               in if timestamp packet - tsOffset c' \<le> m then m + 1
                  else timestamp packet - tsOffset c')"
        using p r1 by (simp add: Let_def)
      from second True show ?thesis by blast
    qed
  qed
qed

theorem SendRtpPacket_timestamp_witness:
  "timestamp (examplePacket\<lparr>ssrc := 5000, sequenceNumber := 1,
                savedPayload := Some [1, 2, 3]\<rparr>) = 100 \<and>
   timestamp (examplePacket\<lparr>ssrc := 5000, sequenceNumber := 1, timestamp := 201,
                savedPayload := Some [1, 2, 3]\<rparr>) =
     maxPacketTs (rtpStream exampleConsumer) + 1 \<and>
   timestamp (examplePacket\<lparr>isKeyFrame := True, ssrc := 5000, sequenceNumber := 1,
                timestamp := 201, savedPayload := Some [1, 2, 3]\<rparr>) =
     maxPacketTs (rtpStream exampleConsumer) + 1"
proof -
  have sl: "mapMappedSsrcSpatialLayer exampleConsumer (ssrc examplePacket) = Some 0"
    "mapMappedSsrcSpatialLayer (exampleConsumer\<lparr>tsExtraOffsets := [(50, 7)]\<rparr>)
       (ssrc examplePacket) = Some 0"
    "mapMappedSsrcSpatialLayer (exampleConsumer\<lparr>syncRequired := True\<rparr>)
       (ssrc (examplePacket\<lparr>isKeyFrame := True\<rparr>)) = Some 0"
    by (simp_all add: exampleConsumer_def examplePacket_def)
  note plain = SendRtpPacket_timestamp [OF example_run _ sl(1), OF disjI1, OF refl]
  note extra = SendRtpPacket_timestamp [OF example_run_extra _ sl(2), OF disjI1, OF refl]
  note sync = SendRtpPacket_timestamp [OF example_run_sync _ sl(3), OF disjI1, OF refl]
  have 1: "timestamp (examplePacket\<lparr>ssrc := 5000, sequenceNumber := 1,
                savedPayload := Some [1, 2, 3]\<rparr>) = 100"
    using plain by (simp add: exampleConsumer_def examplePacket_def)
  have 2: "timestamp (examplePacket\<lparr>ssrc := 5000, sequenceNumber := 1, timestamp := 201,
                savedPayload := Some [1, 2, 3]\<rparr>) =
     maxPacketTs (rtpStream exampleConsumer) + 1"
    using extra by (simp add: exampleConsumer_def examplePacket_def)
  have 3: "timestamp (examplePacket\<lparr>isKeyFrame := True, ssrc := 5000, sequenceNumber := 1,
                timestamp := 201, savedPayload := Some [1, 2, 3]\<rparr>) =
     maxPacketTs (rtpStream exampleConsumer) + 1"
    using sync by (simp add: exampleConsumer_def examplePacket_def)
  from 1 2 3 show ?thesis by blast
qed

text \<open>
  A packet that is not a sync packet, with no stored extra offset and an empty map: its
  timestamp 100 is sent as it is, below the \<open>maxPacketTs\<close> of 200, and no extra offset
  is generated.
\<close>

theorem SendRtpPacket_timestamp_counterexample:
  "\<not> syncRequired exampleConsumer \<and>
   map_of (tsExtraOffsets exampleConsumer) (timestamp examplePacket) = None \<and>
   timestamp examplePacket - tsOffset exampleConsumer < maxPacketTs (rtpStream exampleConsumer) \<and>
   SendRtpPacket exampleDeps exampleConsumer examplePacket =
     Inr (exampleConsumer\<lparr>rtpSeqManager := 1,
            events := [OnConsumerSendRtpPacket
              (examplePacket\<lparr>ssrc := 5000, sequenceNumber := 1,
                 savedPayload := Some [1, 2, 3]\<rparr>)]\<rparr>,
          examplePacket,
          Sent (examplePacket\<lparr>ssrc := 5000, sequenceNumber := 1,
                  savedPayload := Some [1, 2, 3]\<rparr>)) \<and>
   timestamp (examplePacket\<lparr>ssrc := 5000, sequenceNumber := 1,
                savedPayload := Some [1, 2, 3]\<rparr>) < maxPacketTs (rtpStream exampleConsumer) \<and>
   tsExtraOffsets (exampleConsumer\<lparr>rtpSeqManager := 1,
            events := [OnConsumerSendRtpPacket
              (examplePacket\<lparr>ssrc := 5000, sequenceNumber := 1,
                 savedPayload := Some [1, 2, 3]\<rparr>)]\<rparr>) = []"
  using example_run by (simp add: exampleConsumer_def examplePacket_def)

end
